theory Spec2Isabelle
  imports Complex_Main "HOL-Library.Multiset"
begin

section \<open>Values exchanged with the client and the store\<close>

text \<open>
  Request bodies are the values \<open>JSON.parse\<close> produces (\<open>express.json()\<close>). A number
  is a rational or, for a literal beyond the range of a double such as \<open>1e999\<close>, one of
  the two infinities; \<open>JSON.parse\<close> produces no \<open>NaN\<close>. An object is its list of
  members in document order, a later member of the same name overriding an earlier one.
  Strings are lists of code units.
\<close>

datatype number = Finite rat | PosInfinity | NegInfinity

datatype json =
  JNull
| JBool bool
| JNum number
| JStr string
| JArr "json list"
| JObj "(string \<times> json) list"

type_synonym uuid = string
type_synonym timestamptz = nat

fun member_of :: "json \<Rightarrow> string \<Rightarrow> json option" where
  "member_of (JObj kvs) k = map_of (rev kvs) k"
| "member_of _ k = None"

fun is_object :: "json \<Rightarrow> bool" where
  "is_object (JObj kvs) = True"
| "is_object _ = False"

text \<open>JavaScript truthiness of a JSON value, as used by \<open>x || null\<close>.\<close>

fun truthy :: "json \<Rightarrow> bool" where
  "truthy JNull = False"
| "truthy (JBool b) = b"
| "truthy (JNum n) = (n \<noteq> Finite 0)"
| "truthy (JStr s) = (s \<noteq> [])"
| "truthy (JArr xs) = True"
| "truthy (JObj kvs) = True"

text \<open>\<open>s || null\<close> on an optional string, \<open>n || null\<close> on an optional number,
  \<open>v || null\<close> on an optional arbitrary value.\<close>

definition str_or_null :: "string option \<Rightarrow> string option" where
  "str_or_null v = (case v of None \<Rightarrow> None | Some s \<Rightarrow> if s = [] then None else Some s)"

definition num_or_null :: "number option \<Rightarrow> number option" where
  "num_or_null v = (case v of None \<Rightarrow> None | Some n \<Rightarrow> if n = Finite 0 then None else Some n)"

definition any_or_null :: "json option \<Rightarrow> json option" where
  "any_or_null v = (case v of None \<Rightarrow> None | Some j \<Rightarrow> if truthy j then Some j else None)"

text \<open>\<open>String.prototype.trim\<close> on code units below 256: TAB, LF, VT, FF, CR, SP, NBSP.\<close>

definition js_space :: "char \<Rightarrow> bool" where
  "js_space c = (of_char c \<in> {9, 10, 11, 12, 13, 32, 160 :: nat})"

definition trim :: "string \<Rightarrow> string" where
  "trim s = rev (dropWhile js_space (rev (dropWhile js_space s)))"

text \<open>\<open>String.prototype.includes\<close>.\<close>

fun str_includes :: "string \<Rightarrow> string \<Rightarrow> bool" where
  "str_includes [] pat = (pat = [])"
| "str_includes (c # cs) pat = (take (length pat) (c # cs) = pat \<or> str_includes cs pat)"

subsection \<open>Validation schemas (zod)\<close>

fun z_string_min :: "nat \<Rightarrow> json \<Rightarrow> string option" where
  "z_string_min n (JStr s) = (if n \<le> length s then Some s else None)"
| "z_string_min n _ = None"

fun z_string :: "json \<Rightarrow> string option" where
  "z_string (JStr s) = Some s"
| "z_string _ = None"

fun z_number_min :: "rat \<Rightarrow> json \<Rightarrow> number option" where
  "z_number_min lo (JNum (Finite q)) = (if lo \<le> q then Some (Finite q) else None)"
| "z_number_min lo (JNum PosInfinity) = Some PosInfinity"
| "z_number_min lo _ = None"

fun z_enum :: "string list \<Rightarrow> json \<Rightarrow> string option" where
  "z_enum vs (JStr s) = (if s \<in> set vs then Some s else None)"
| "z_enum vs _ = None"

text \<open>A required member fails when absent; an optional one is then absent in the
  result; a defaulted one then takes the default. The outer \<open>None\<close> is a failed parse.\<close>

definition required :: "(json \<Rightarrow> 'a option) \<Rightarrow> json option \<Rightarrow> 'a option" where
  "required p v = (case v of None \<Rightarrow> None | Some j \<Rightarrow> p j)"

definition optional :: "(json \<Rightarrow> 'a option) \<Rightarrow> json option \<Rightarrow> 'a option option" where
  "optional p v = (case v of None \<Rightarrow> Some None | Some j \<Rightarrow> map_option Some (p j))"

definition defaulted :: "(json \<Rightarrow> 'a option) \<Rightarrow> 'a \<Rightarrow> json option \<Rightarrow> 'a option" where
  "defaulted p d v = (case v of None \<Rightarrow> Some d | Some j \<Rightarrow> p j)"

record RoleSelection =
  rs_role :: string

definition RoleSelectionBody :: "json \<Rightarrow> RoleSelection option" where
  "RoleSelectionBody b =
     (if \<not> is_object b then None
      else Option.bind (required (z_enum [''RESIDENT'', ''WORKER'']) (member_of b ''role''))
             (\<lambda>r. Some \<lparr>rs_role = r\<rparr>))"

record Profile =
  pb_name :: string
  pb_phone :: string
  pb_block :: "string option"
  pb_flatNo :: "string option"
  pb_age :: "number option"

definition ProfileBody :: "json \<Rightarrow> Profile option" where
  "ProfileBody b =
     (if \<not> is_object b then None
      else Option.bind (required (z_string_min 1) (member_of b ''name'')) (\<lambda>name.
           Option.bind (required (z_string_min 10) (member_of b ''phone'')) (\<lambda>phone.
           Option.bind (optional z_string (member_of b ''block'')) (\<lambda>block.
           Option.bind (optional z_string (member_of b ''flatNo'')) (\<lambda>flatNo.
           Option.bind (optional (z_number_min 1) (member_of b ''age'')) (\<lambda>age.
             Some \<lparr>pb_name = name, pb_phone = phone, pb_block = block,
                   pb_flatNo = flatNo, pb_age = age\<rparr>))))))"

record ServicePost =
  sb_title :: string
  sb_cuisine :: "string option"
  sb_price :: number
  sb_serviceArea :: "string option"
  sb_availableTiming :: "string option"
  sb_description :: "string option"
  sb_timeSlots :: "json option"

definition ServicePostBody :: "json \<Rightarrow> ServicePost option" where
  "ServicePostBody b =
     (if \<not> is_object b then None
      else Option.bind (required (z_string_min 1) (member_of b ''title'')) (\<lambda>title.
           Option.bind (optional (z_enum [''NORTH'', ''SOUTH'', ''BOTH'']) (member_of b ''cuisine'')) (\<lambda>cuisine.
           Option.bind (required (z_number_min 1) (member_of b ''price'')) (\<lambda>price.
           Option.bind (optional z_string (member_of b ''serviceArea'')) (\<lambda>serviceArea.
           Option.bind (optional z_string (member_of b ''availableTiming'')) (\<lambda>availableTiming.
           Option.bind (optional z_string (member_of b ''description'')) (\<lambda>description.
             Some \<lparr>sb_title = title, sb_cuisine = cuisine, sb_price = price,
                   sb_serviceArea = serviceArea, sb_availableTiming = availableTiming,
                   sb_description = description,
                   sb_timeSlots = member_of b ''timeSlots''\<rparr>)))))))"

record RequirementPost =
  rb_needType :: string
  rb_details :: "string option"
  rb_preferredTiming :: "string option"
  rb_preferredPrice :: "number option"
  rb_block :: "string option"
  rb_flatNo :: "string option"
  rb_urgency :: string

definition RequirementPostBody :: "json \<Rightarrow> RequirementPost option" where
  "RequirementPostBody b =
     (if \<not> is_object b then None
      else Option.bind (required (z_enum [''COOK'', ''MAID'', ''BOTH'']) (member_of b ''needType'')) (\<lambda>needType.
           Option.bind (optional z_string (member_of b ''details'')) (\<lambda>details.
           Option.bind (optional z_string (member_of b ''preferredTiming'')) (\<lambda>preferredTiming.
           Option.bind (optional (z_number_min 0) (member_of b ''preferredPrice'')) (\<lambda>preferredPrice.
           Option.bind (optional z_string (member_of b ''block'')) (\<lambda>block.
           Option.bind (optional z_string (member_of b ''flatNo'')) (\<lambda>flatNo.
           Option.bind (defaulted (z_enum [''LOW'', ''MEDIUM'', ''HIGH'']) ''MEDIUM'' (member_of b ''urgency'')) (\<lambda>urgency.
             Some \<lparr>rb_needType = needType, rb_details = details,
                   rb_preferredTiming = preferredTiming, rb_preferredPrice = preferredPrice,
                   rb_block = block, rb_flatNo = flatNo, rb_urgency = urgency\<rparr>))))))))"

section \<open>The persistence boundary\<close>

text \<open>
  The relations and views of \<open>supabase/schema.sql\<close>, each relation a list of rows, with
  the constraints the store enforces on a write (types of the columns, check, unique and
  foreign-key constraints, column defaults). A store error carries the code and the
  message the client library hands back; messages that quote the offending value are
  shortened. The identifier a new row receives (\<open>gen_random_uuid()\<close>) and the current
  time (\<open>now()\<close>) come from the environment of the call. The handlers below write only
  rows of the caller, which the row-level policies of the schema admit.
\<close>

record pg_error =
  code :: string
  message :: string

record env =
  gen_random_uuid :: uuid
  now :: timestamptz

record users_row =
  u_id :: uuid
  u_auth_id :: uuid
  u_role :: string
  u_created_at :: timestamptz
  u_updated_at :: timestamptz

record profiles_row =
  p_id :: uuid
  p_user_id :: uuid
  p_name :: string
  p_phone :: string
  p_block :: "string option"
  p_flat_no :: "string option"
  p_age :: "int option"
  p_verified :: bool
  p_created_at :: timestamptz
  p_updated_at :: timestamptz

record worker_profiles_row =
  wp_id :: uuid
  wp_user_id :: uuid
  wp_worker_type :: string
  wp_cuisine :: "string option"
  wp_experience_yrs :: int
  wp_charges :: int
  wp_long_term_offer :: "string option"
  wp_rating :: rat
  wp_rating_count :: int
  wp_time_slots :: "json option"
  wp_created_at :: timestamptz
  wp_updated_at :: timestamptz

record service_posts_row =
  sp_id :: uuid
  sp_worker_id :: uuid
  sp_title :: string
  sp_cuisine :: "string option"
  sp_price :: int
  sp_service_area :: "string option"
  sp_available_timing :: "string option"
  sp_description :: "string option"
  sp_time_slots :: "json option"
  sp_is_active :: bool
  sp_created_at :: timestamptz
  sp_updated_at :: timestamptz

record requirements_row =
  r_id :: uuid
  r_owner_id :: uuid
  r_need_type :: string
  r_details :: "string option"
  r_preferred_timing :: "string option"
  r_preferred_price :: "int option"
  r_block :: "string option"
  r_flat_no :: "string option"
  r_urgency :: string
  r_is_open :: bool
  r_created_at :: timestamptz
  r_updated_at :: timestamptz

record db =
  users :: "users_row list"
  profiles :: "profiles_row list"
  worker_profiles :: "worker_profiles_row list"
  service_posts :: "service_posts_row list"
  requirements :: "requirements_row list"

definition unique_violation :: "string \<Rightarrow> pg_error" where
  "unique_violation c =
     \<lparr>code = ''23505'',
      message = ''duplicate key value violates unique constraint \"'' @ c @ ''\"''\<rparr>"

definition check_violation :: "string \<Rightarrow> string \<Rightarrow> pg_error" where
  "check_violation rel c =
     \<lparr>code = ''23514'',
      message = ''new row for relation \"'' @ rel @ ''\" violates check constraint \"'' @ c @ ''\"''\<rparr>"

definition foreign_key_violation :: "string \<Rightarrow> string \<Rightarrow> pg_error" where
  "foreign_key_violation rel c =
     \<lparr>code = ''23503'',
      message = ''insert or update on table \"'' @ rel @ ''\" violates foreign key constraint \"'' @ c @ ''\"''\<rparr>"

definition not_single :: pg_error where
  "not_single =
     \<lparr>code = ''PGRST116'',
      message = ''JSON object requested, multiple (or no) rows returned''\<rparr>"

definition invalid_uuid :: pg_error where
  "invalid_uuid =
     \<lparr>code = ''22P02'', message = ''invalid input syntax for type uuid: \"undefined\"''\<rparr>"

definition not_null_violation :: "string \<Rightarrow> string \<Rightarrow> pg_error" where
  "not_null_violation rel col =
     \<lparr>code = ''23502'',
      message = ''null value in column \"'' @ col @ ''\" of relation \"'' @ rel @
                ''\" violates not-null constraint''\<rparr>"

text \<open>A number on its way to an \<open>int\<close> column. \<open>JSON.stringify\<close> writes an infinity
  as \<open>null\<close>. It writes a finite number as a decimal literal, in exponent notation from
  \<open>1e21\<close> on; the column takes the literal of a whole number in the range of four bytes.
  A \<open>null\<close> is stored in a nullable column and refused by a column that is
  \<open>not null\<close>.\<close>

definition json_number :: "number \<Rightarrow> rat option" where
  "json_number n = (case n of Finite q \<Rightarrow> Some q | PosInfinity \<Rightarrow> None | NegInfinity \<Rightarrow> None)"

definition int4 :: "rat \<Rightarrow> pg_error + int" where
  "int4 q =
     (if of_int \<lfloor>q\<rfloor> \<noteq> q \<or> 1000000000000000000000 \<le> \<bar>q\<bar>
        then Inl \<lparr>code = ''22P02'', message = ''invalid input syntax for type integer''\<rparr>
      else if \<lfloor>q\<rfloor> < - 2147483648 \<or> 2147483647 < \<lfloor>q\<rfloor>
        then Inl \<lparr>code = ''22003'', message = ''value is out of range for type integer''\<rparr>
      else Inr \<lfloor>q\<rfloor>)"

definition int4_not_null :: "string \<Rightarrow> string \<Rightarrow> number \<Rightarrow> pg_error + int" where
  "int4_not_null rel col n =
     (case json_number n of
        None \<Rightarrow> Inl (not_null_violation rel col)
      | Some q \<Rightarrow> int4 q)"

definition int4_opt :: "number option \<Rightarrow> pg_error + int option" where
  "int4_opt v =
     (case v of
        None \<Rightarrow> Inr None
      | Some n \<Rightarrow>
          (case json_number n of
             None \<Rightarrow> Inr None
           | Some q \<Rightarrow> (case int4 q of Inl err \<Rightarrow> Inl err | Inr i \<Rightarrow> Inr (Some i))))"

text \<open>The value a filter \<open>.eq(column, v)\<close> on a \<open>uuid\<close> column compares with. The
  client library sends \<open>undefined\<close> as the text \<open>undefined\<close>, which is no uuid. A
  text that matches no stored identifier selects no row.\<close>

definition eq_uuid :: "string option \<Rightarrow> pg_error + uuid" where
  "eq_uuid v = (case v of None \<Rightarrow> Inl invalid_uuid | Some s \<Rightarrow> Inr s)"

text \<open>\<open>.maybeSingle()\<close>: no row is \<open>null\<close> data without error, one row is that
  row, several rows are an error with \<open>null\<close> data. \<open>.single()\<close>: anything but one
  row is an error. An error of the query itself is handed on.\<close>

definition maybeSingle :: "pg_error + 'a list \<Rightarrow> pg_error option \<times> 'a option" where
  "maybeSingle q =
     (case q of Inl err \<Rightarrow> (Some err, None)
      | Inr [] \<Rightarrow> (None, None)
      | Inr [r] \<Rightarrow> (None, Some r)
      | Inr _ \<Rightarrow> (Some not_single, None))"

definition single :: "pg_error + 'a list \<Rightarrow> pg_error + 'a" where
  "single q =
     (case q of Inl err \<Rightarrow> Inl err
      | Inr [r] \<Rightarrow> Inr r
      | Inr _ \<Rightarrow> Inl not_single)"

subsection \<open>users\<close>

text \<open>\<open>from('users').select(...).eq('auth_id', authId)\<close>\<close>

definition users_by_auth_id :: "db \<Rightarrow> uuid \<Rightarrow> pg_error + users_row list" where
  "users_by_auth_id d a = Inr (filter (\<lambda>u. u_auth_id u = a) (users d))"

text \<open>\<open>from('users').insert({auth_id, role}).select('id').single()\<close>\<close>

definition users_insert :: "env \<Rightarrow> db \<Rightarrow> uuid \<Rightarrow> string \<Rightarrow> (pg_error + users_row) \<times> db" where
  "users_insert e d a r =
     (let row = \<lparr>u_id = gen_random_uuid e, u_auth_id = a, u_role = r,
                 u_created_at = now e, u_updated_at = now e\<rparr>
      in if r \<notin> set [''RESIDENT'', ''WORKER'']
           then (Inl (check_violation ''users'' ''users_role_check''), d)
         else if u_id row \<in> set (map u_id (users d))
           then (Inl (unique_violation ''users_pkey''), d)
         else if a \<in> set (map u_auth_id (users d))
           then (Inl (unique_violation ''users_auth_id_key''), d)
         else (Inr row, d\<lparr>users := users d @ [row]\<rparr>))"

text \<open>\<open>from('users').update({role}).eq('auth_id', authId).select('id').single()\<close>: a
  result that is not exactly one row is refused and the statement rolled back.\<close>

definition users_update_role :: "db \<Rightarrow> uuid \<Rightarrow> string \<Rightarrow> (pg_error + users_row) \<times> db" where
  "users_update_role d a r =
     (if r \<notin> set [''RESIDENT'', ''WORKER'']
        then (Inl (check_violation ''users'' ''users_role_check''), d)
      else case filter (\<lambda>u. u_auth_id u = a) (users d) of
             [u] \<Rightarrow>
               (Inr (u\<lparr>u_role := r\<rparr>),
                d\<lparr>users := map (\<lambda>u. if u_auth_id u = a then u\<lparr>u_role := r\<rparr> else u) (users d)\<rparr>)
           | _ \<Rightarrow> (Inl not_single, d))"

subsection \<open>profiles\<close>

record profile_values =
  pv_name :: string
  pv_phone :: string
  pv_block :: "string option"
  pv_flat_no :: "string option"
  pv_age :: "number option"
  pv_verified :: bool

text \<open>\<open>from('profiles').select('id').eq('user_id', userId)\<close>\<close>

definition profiles_by_user_id :: "db \<Rightarrow> uuid \<Rightarrow> pg_error + profiles_row list" where
  "profiles_by_user_id d uid = Inr (filter (\<lambda>p. p_user_id p = uid) (profiles d))"

text \<open>\<open>from('profiles').insert({user_id, ...}).select('*').single()\<close>\<close>

definition profiles_insert ::
  "env \<Rightarrow> db \<Rightarrow> uuid \<Rightarrow> profile_values \<Rightarrow> (pg_error + profiles_row) \<times> db" where
  "profiles_insert e d uid v =
     (case int4_opt (pv_age v) of
        Inl err \<Rightarrow> (Inl err, d)
      | Inr age \<Rightarrow>
          (let row = \<lparr>p_id = gen_random_uuid e, p_user_id = uid, p_name = pv_name v,
                      p_phone = pv_phone v, p_block = pv_block v, p_flat_no = pv_flat_no v,
                      p_age = age, p_verified = pv_verified v,
                      p_created_at = now e, p_updated_at = now e\<rparr>
           in if p_id row \<in> set (map p_id (profiles d))
                then (Inl (unique_violation ''profiles_pkey''), d)
              else if uid \<in> set (map p_user_id (profiles d))
                then (Inl (unique_violation ''profiles_user_id_key''), d)
              else if pv_phone v \<in> set (map p_phone (profiles d))
                then (Inl (unique_violation ''profiles_phone_key''), d)
              else if uid \<notin> set (map u_id (users d))
                then (Inl (foreign_key_violation ''profiles'' ''profiles_user_id_fkey''), d)
              else (Inr row, d\<lparr>profiles := profiles d @ [row]\<rparr>)))"

text \<open>\<open>from('profiles').update({...}).eq('user_id', userId).select('*').single()\<close>\<close>

definition profiles_set :: "profile_values \<Rightarrow> int option \<Rightarrow> profiles_row \<Rightarrow> profiles_row" where
  "profiles_set v age p =
     p\<lparr>p_name := pv_name v, p_phone := pv_phone v, p_block := pv_block v,
       p_flat_no := pv_flat_no v, p_age := age, p_verified := pv_verified v\<rparr>"

definition profiles_update_by_user_id ::
  "db \<Rightarrow> uuid \<Rightarrow> profile_values \<Rightarrow> (pg_error + profiles_row) \<times> db" where
  "profiles_update_by_user_id d uid v =
     (case int4_opt (pv_age v) of
        Inl err \<Rightarrow> (Inl err, d)
      | Inr age \<Rightarrow>
          (case filter (\<lambda>p. p_user_id p = uid) (profiles d) of
             [] \<Rightarrow> (Inl not_single, d)
           | [p] \<Rightarrow>
               if pv_phone v \<in> set (map p_phone (filter (\<lambda>p. p_user_id p \<noteq> uid) (profiles d)))
                 then (Inl (unique_violation ''profiles_phone_key''), d)
               else (Inr (profiles_set v age p),
                     d\<lparr>profiles := map (\<lambda>p. if p_user_id p = uid then profiles_set v age p else p)
                                       (profiles d)\<rparr>)
           | _ \<Rightarrow> (Inl (unique_violation ''profiles_phone_key''), d)))"

subsection \<open>worker\_profiles\<close>

text \<open>\<open>from('worker_profiles').select('id').eq('user_id', userId)\<close>\<close>

definition worker_profiles_by_user_id :: "db \<Rightarrow> uuid \<Rightarrow> pg_error + worker_profiles_row list" where
  "worker_profiles_by_user_id d uid = Inr (filter (\<lambda>w. wp_user_id w = uid) (worker_profiles d))"

subsection \<open>service\_posts\<close>

record service_post_values =
  sv_worker_id :: uuid
  sv_title :: string
  sv_cuisine :: "string option"
  sv_price :: number
  sv_service_area :: "string option"
  sv_available_timing :: "string option"
  sv_description :: "string option"
  sv_time_slots :: "json option"

text \<open>\<open>from('service_posts').insert({...}).select('*').single()\<close>\<close>

definition service_posts_insert ::
  "env \<Rightarrow> db \<Rightarrow> service_post_values \<Rightarrow> (pg_error + service_posts_row) \<times> db" where
  "service_posts_insert e d v =
     (case int4_not_null ''service_posts'' ''price'' (sv_price v) of
        Inl err \<Rightarrow> (Inl err, d)
      | Inr price \<Rightarrow>
          (let row = \<lparr>sp_id = gen_random_uuid e, sp_worker_id = sv_worker_id v,
                      sp_title = sv_title v, sp_cuisine = sv_cuisine v, sp_price = price,
                      sp_service_area = sv_service_area v,
                      sp_available_timing = sv_available_timing v,
                      sp_description = sv_description v, sp_time_slots = sv_time_slots v,
                      sp_is_active = True, sp_created_at = now e, sp_updated_at = now e\<rparr>
           in if sv_cuisine v \<notin> set [None, Some ''NORTH'', Some ''SOUTH'', Some ''BOTH'']
                then (Inl (check_violation ''service_posts'' ''service_posts_cuisine_check''), d)
              else if sp_id row \<in> set (map sp_id (service_posts d))
                then (Inl (unique_violation ''service_posts_pkey''), d)
              else if sv_worker_id v \<notin> set (map wp_id (worker_profiles d))
                then (Inl (foreign_key_violation ''service_posts'' ''service_posts_worker_id_fkey''), d)
              else (Inr row, d\<lparr>service_posts := service_posts d @ [row]\<rparr>)))"

text \<open>\<open>from('service_posts').update({is_active}).eq('id', serviceId).select('*').single()\<close>\<close>

definition service_posts_update_is_active ::
  "db \<Rightarrow> string option \<Rightarrow> bool \<Rightarrow> (pg_error + service_posts_row) \<times> db" where
  "service_posts_update_is_active d serviceId a =
     (case eq_uuid serviceId of
        Inl err \<Rightarrow> (Inl err, d)
      | Inr sid \<Rightarrow>
          (case filter (\<lambda>s. sp_id s = sid) (service_posts d) of
             [s] \<Rightarrow>
               (Inr (s\<lparr>sp_is_active := a\<rparr>),
                d\<lparr>service_posts :=
                    map (\<lambda>s. if sp_id s = sid then s\<lparr>sp_is_active := a\<rparr> else s) (service_posts d)\<rparr>)
           | _ \<Rightarrow> (Inl not_single, d)))"

text \<open>\<open>from('service_posts').delete().eq('id', serviceId)\<close>\<close>

definition service_posts_delete :: "db \<Rightarrow> string option \<Rightarrow> pg_error option \<times> db" where
  "service_posts_delete d serviceId =
     (case eq_uuid serviceId of
        Inl err \<Rightarrow> (Some err, d)
      | Inr sid \<Rightarrow>
          (None, d\<lparr>service_posts := filter (\<lambda>s. sp_id s \<noteq> sid) (service_posts d)\<rparr>))"

subsection \<open>service\_posts\_view\<close>

record service_posts_view_row =
  v_post :: service_posts_row
  v_user_id :: uuid
  v_rating :: rat
  v_rating_count :: int
  v_experience_yrs :: int
  v_role :: string
  v_auth_id :: uuid
  v_name :: "string option"
  v_phone :: "string option"

definition left_join :: "'a list \<Rightarrow> 'a option list" where
  "left_join rows = (if rows = [] then [None] else map Some rows)"

definition service_posts_view :: "db \<Rightarrow> service_posts_view_row list" where
  "service_posts_view d =
     [\<lparr>v_post = sp, v_user_id = wp_user_id wp, v_rating = wp_rating wp,
       v_rating_count = wp_rating_count wp, v_experience_yrs = wp_experience_yrs wp,
       v_role = u_role u, v_auth_id = u_auth_id u,
       v_name = map_option p_name p, v_phone = map_option p_phone p\<rparr>.
      sp \<leftarrow> service_posts d,
      wp \<leftarrow> worker_profiles d, wp_id wp = sp_worker_id sp,
      u \<leftarrow> users d, u_id u = wp_user_id wp,
      p \<leftarrow> left_join (filter (\<lambda>p. p_user_id p = u_id u) (profiles d))]"

text \<open>\<open>.order('created_at', { ascending: false })\<close>\<close>

definition order_desc :: "('a \<Rightarrow> timestamptz) \<Rightarrow> 'a list \<Rightarrow> 'a list" where
  "order_desc f rows = rev (sort_key f rows)"

text \<open>\<open>from('service_posts_view').select('*').eq('is_active', true).order('created_at', ...)\<close>\<close>

definition service_posts_view_active :: "db \<Rightarrow> pg_error + service_posts_view_row list" where
  "service_posts_view_active d =
     Inr (order_desc (\<lambda>r. sp_created_at (v_post r))
            (filter (\<lambda>r. sp_is_active (v_post r) = True) (service_posts_view d)))"

text \<open>\<open>from('service_posts_view').select(...).eq('id', serviceId).eq('auth_id', authId)\<close>\<close>

definition service_posts_view_owned ::
  "db \<Rightarrow> string option \<Rightarrow> uuid \<Rightarrow> pg_error + service_posts_view_row list" where
  "service_posts_view_owned d serviceId authId =
     (case eq_uuid serviceId of
        Inl err \<Rightarrow> Inl err
      | Inr sid \<Rightarrow>
          Inr (filter (\<lambda>r. sp_id (v_post r) = sid \<and> v_auth_id r = authId) (service_posts_view d)))"

subsection \<open>requirements\<close>

record requirement_values =
  rv_owner_id :: uuid
  rv_need_type :: string
  rv_details :: "string option"
  rv_preferred_timing :: "string option"
  rv_preferred_price :: "number option"
  rv_block :: "string option"
  rv_flat_no :: "string option"
  rv_urgency :: string

text \<open>\<open>from('requirements').insert({...}).select('*').single()\<close>\<close>

definition requirements_insert ::
  "env \<Rightarrow> db \<Rightarrow> requirement_values \<Rightarrow> (pg_error + requirements_row) \<times> db" where
  "requirements_insert e d v =
     (case int4_opt (rv_preferred_price v) of
        Inl err \<Rightarrow> (Inl err, d)
      | Inr price \<Rightarrow>
          (let row = \<lparr>r_id = gen_random_uuid e, r_owner_id = rv_owner_id v,
                      r_need_type = rv_need_type v, r_details = rv_details v,
                      r_preferred_timing = rv_preferred_timing v, r_preferred_price = price,
                      r_block = rv_block v, r_flat_no = rv_flat_no v, r_urgency = rv_urgency v,
                      r_is_open = True, r_created_at = now e, r_updated_at = now e\<rparr>
           in if rv_need_type v \<notin> set [''COOK'', ''MAID'', ''BOTH'']
                then (Inl (check_violation ''requirements'' ''requirements_need_type_check''), d)
              else if rv_urgency v \<notin> set [''LOW'', ''MEDIUM'', ''HIGH'']
                then (Inl (check_violation ''requirements'' ''requirements_urgency_check''), d)
              else if r_id row \<in> set (map r_id (requirements d))
                then (Inl (unique_violation ''requirements_pkey''), d)
              else if rv_owner_id v \<notin> set (map u_id (users d))
                then (Inl (foreign_key_violation ''requirements'' ''requirements_owner_id_fkey''), d)
              else (Inr row, d\<lparr>requirements := requirements d @ [row]\<rparr>)))"

section \<open>Requests and responses\<close>

text \<open>A response is the status and the JSON body the handler sends. The authentication
  middleware has run before a protected handler: \<open>authId\<close> is the subject the
  identity provider returned for the bearer token. \<open>req.params\<close> maps the names of the
  route's path parameters to the text of the path segments; both service routes below
  declare one parameter, \<open>:id\<close>.\<close>

datatype body =
  Error string
| ErrorDetails string string
| ValidationFailed
| RoleSelected uuid string
| ProfileData profiles_row
| ServicePostData service_posts_row
| Services "service_posts_view_row list"
| RequirementData requirements_row
| Success string

datatype response = Response nat body

definition route_params :: "string \<Rightarrow> (string \<rightharpoonup> string)" where
  "route_params segment = [''id'' \<mapsto> segment]"

section \<open>POST /select-role\<close>

definition select_role :: "env \<Rightarrow> db \<Rightarrow> uuid \<Rightarrow> json \<Rightarrow> response \<times> db" where
  "select_role e d authId reqBody =
     (case RoleSelectionBody reqBody of
        None \<Rightarrow> (Response 422 (Error ''Invalid role. Must be RESIDENT or WORKER''), d)
      | Some parsed \<Rightarrow>
          (case maybeSingle (users_by_auth_id d authId) of
             (Some euErr, _) \<Rightarrow>
               (Response 500 (ErrorDetails ''Failed to load user'' (message euErr)), d)
           | (None, None) \<Rightarrow>
               (case users_insert e d authId (rs_role parsed) of
                  (Inl err, d') \<Rightarrow>
                    (Response 500 (ErrorDetails ''Failed to create user'' (message err)), d')
                | (Inr ins, d') \<Rightarrow>
                    (Response 200 (RoleSelected (u_id ins) (rs_role parsed)), d'))
           | (None, Some existingUser) \<Rightarrow>
               (case users_update_role d authId (rs_role parsed) of
                  (Inl err, d') \<Rightarrow>
                    (Response 500 (ErrorDetails ''Failed to update role'' (message err)), d')
                | (Inr updateRes, d') \<Rightarrow>
                    (Response 200 (RoleSelected (u_id updateRes) (rs_role parsed)), d'))))"

section \<open>POST /profile\<close>

text \<open>The response to the outcome of the write, the last step of the handler.\<close>

definition profile_write_response :: "pg_error + profiles_row \<Rightarrow> response" where
  "profile_write_response profileRes =
     (case profileRes of
        Inl err \<Rightarrow>
          if code err = ''23505'' then
            if str_includes (message err) ''phone''
              then Response 409 (Error ''Phone number already in use'')
            else Response 409 (Error ''Profile already exists'')
          else Response 500 (ErrorDetails ''Failed to save profile'' (message err))
      | Inr data \<Rightarrow> Response 200 (ProfileData data))"

definition profile_values_of :: "Profile \<Rightarrow> profile_values" where
  "profile_values_of parsed =
     \<lparr>pv_name = pb_name parsed,
      pv_phone = trim (pb_phone parsed),
      pv_block = str_or_null (pb_block parsed),
      pv_flat_no = str_or_null (pb_flatNo parsed),
      pv_age = num_or_null (pb_age parsed),
      pv_verified = True\<rparr>"

definition post_profile :: "env \<Rightarrow> db \<Rightarrow> uuid \<Rightarrow> json \<Rightarrow> response \<times> db" where
  "post_profile e d authId reqBody =
     (case ProfileBody reqBody of
        None \<Rightarrow> (Response 422 ValidationFailed, d)
      | Some parsed \<Rightarrow>
          (case maybeSingle (users_by_auth_id d authId) of
             (Some euErr, _) \<Rightarrow>
               (Response 500 (ErrorDetails ''Failed to load user'' (message euErr)), d)
           | (None, None) \<Rightarrow>
               (Response 400 (Error ''Please select your role first using /select-role''), d)
           | (None, Some existingUser) \<Rightarrow>
               if u_role existingUser = []
                 then (Response 400 (Error ''Please select your role first using /select-role''), d)
               else
                 (let userId = u_id existingUser in
                  case snd (maybeSingle (profiles_by_user_id d userId)) of
                    Some existingProfile \<Rightarrow>
                      (case profiles_update_by_user_id d userId (profile_values_of parsed) of
                         (profileRes, d') \<Rightarrow> (profile_write_response profileRes, d'))
                  | None \<Rightarrow>
                      (case profiles_insert e d userId (profile_values_of parsed) of
                         (profileRes, d') \<Rightarrow> (profile_write_response profileRes, d')))))"

section \<open>GET /services\<close>

definition get_services :: "db \<Rightarrow> response" where
  "get_services d =
     Response 200
       (Services (case service_posts_view_active d of Inl err \<Rightarrow> [] | Inr services \<Rightarrow> services))"

section \<open>POST /services\<close>

definition post_services :: "env \<Rightarrow> db \<Rightarrow> uuid \<Rightarrow> json \<Rightarrow> response \<times> db" where
  "post_services e d authId reqBody =
     (case ServicePostBody reqBody of
        None \<Rightarrow> (Response 422 ValidationFailed, d)
      | Some parsed \<Rightarrow>
          (case snd (maybeSingle (users_by_auth_id d authId)) of
             None \<Rightarrow> (Response 403 (Error ''Only workers can post services''), d)
           | Some user \<Rightarrow>
               if u_role user \<noteq> ''WORKER''
                 then (Response 403 (Error ''Only workers can post services''), d)
               else
                 (case snd (maybeSingle (worker_profiles_by_user_id d (u_id user))) of
                    None \<Rightarrow>
                      (Response 400 (Error ''Please complete your worker profile first''), d)
                  | Some workerProfile \<Rightarrow>
                      (case service_posts_insert e d
                              \<lparr>sv_worker_id = wp_id workerProfile,
                               sv_title = sb_title parsed,
                               sv_cuisine = str_or_null (sb_cuisine parsed),
                               sv_price = sb_price parsed,
                               sv_service_area = str_or_null (sb_serviceArea parsed),
                               sv_available_timing = str_or_null (sb_availableTiming parsed),
                               sv_description = str_or_null (sb_description parsed),
                               sv_time_slots = any_or_null (sb_timeSlots parsed)\<rparr> of
                         (Inl err, d') \<Rightarrow>
                           (Response 500
                              (ErrorDetails ''Failed to create service post'' (message err)), d')
                       | (Inr data, d') \<Rightarrow> (Response 200 (ServicePostData data), d')))))"

section \<open>PATCH /services/:id/toggle\<close>

definition toggle_service :: "db \<Rightarrow> uuid \<Rightarrow> (string \<rightharpoonup> string) \<Rightarrow> response \<times> db" where
  "toggle_service d authId params =
     (let serviceId = params ''id'' in
      case snd (maybeSingle (service_posts_view_owned d serviceId authId)) of
        None \<Rightarrow> (Response 404 (Error ''Service not found or not owned by you''), d)
      | Some service \<Rightarrow>
          (case service_posts_update_is_active d serviceId (\<not> sp_is_active (v_post service)) of
             (Inl err, d') \<Rightarrow>
               (Response 500 (ErrorDetails ''Failed to update service'' (message err)), d')
           | (Inr data, d') \<Rightarrow> (Response 200 (ServicePostData data), d')))"

section \<open>DELETE /services/:id\<close>

definition delete_service :: "db \<Rightarrow> uuid \<Rightarrow> (string \<rightharpoonup> string) \<Rightarrow> response \<times> db" where
  "delete_service d authId params =
     (let serviceId = params ''serviceId'' in
      case single (service_posts_view_owned d serviceId authId) of
        Inl fetchError \<Rightarrow> (Response 404 (Error ''Service not found or not owned by you''), d)
      | Inr service \<Rightarrow>
          (case service_posts_delete d serviceId of
             (Some err, d') \<Rightarrow>
               (Response 500 (ErrorDetails ''Failed to delete service'' (message err)), d')
           | (None, d') \<Rightarrow> (Response 200 (Success ''Service deleted successfully''), d')))"

section \<open>POST /requirements\<close>

definition post_requirements :: "env \<Rightarrow> db \<Rightarrow> uuid \<Rightarrow> json \<Rightarrow> response \<times> db" where
  "post_requirements e d authId reqBody =
     (case RequirementPostBody reqBody of
        None \<Rightarrow> (Response 422 ValidationFailed, d)
      | Some parsed \<Rightarrow>
          (case snd (maybeSingle (users_by_auth_id d authId)) of
             None \<Rightarrow> (Response 403 (Error ''Only residents can post requirements''), d)
           | Some user \<Rightarrow>
               if u_role user \<noteq> ''RESIDENT''
                 then (Response 403 (Error ''Only residents can post requirements''), d)
               else
                 (case requirements_insert e d
                         \<lparr>rv_owner_id = u_id user,
                          rv_need_type = rb_needType parsed,
                          rv_details = str_or_null (rb_details parsed),
                          rv_preferred_timing = str_or_null (rb_preferredTiming parsed),
                          rv_preferred_price = num_or_null (rb_preferredPrice parsed),
                          rv_block = str_or_null (rb_block parsed),
                          rv_flat_no = str_or_null (rb_flatNo parsed),
                          rv_urgency = rb_urgency parsed\<rparr> of
                    (Inl err, d') \<Rightarrow>
                      (Response 500
                         (ErrorDetails ''Failed to create requirement'' (message err)), d')
                  | (Inr data, d') \<Rightarrow> (Response 200 (RequirementData data), d'))))"

section \<open>Translation\<close>

text \<open>
  The external language model is a function from the prompt to its answer, \<open>None\<close>
  when the call fails. A prompt is the instruction template of \<open>translateText\<close> with
  its four holes filled: the context sentence, the names of the two languages and the
  text. \<open>translateText\<close> returns its result together with the prompts it has sent.
\<close>

definition SUPPORTED_LANGUAGES :: "(string \<times> string) list" where
  "SUPPORTED_LANGUAGES =
     [(''en'', ''English''), (''hi'', ''Hindi''), (''ta'', ''Tamil''), (''te'', ''Telugu''),
      (''kn'', ''Kannada''), (''ml'', ''Malayalam''), (''bn'', ''Bengali''),
      (''mr'', ''Marathi''), (''gu'', ''Gujarati''), (''pa'', ''Punjabi'')]"

text \<open>\<open>SUPPORTED_LANGUAGES[code]\<close> inside the template literal of the prompt. The table
  is a plain object, so a code that is no key of its own still finds the members of
  \<open>Object.prototype\<close>, which the template renders as text; any other code gives
  \<open>undefined\<close>.\<close>

definition native_code :: "string \<Rightarrow> string" where
  "native_code f = ''function '' @ f @ ''() { [native code] }''"

definition Object_prototype :: "(string \<times> string) list" where
  "Object_prototype =
     [(''constructor'', native_code ''Object''),
      (''toString'', native_code ''toString''),
      (''toLocaleString'', native_code ''toLocaleString''),
      (''valueOf'', native_code ''valueOf''),
      (''hasOwnProperty'', native_code ''hasOwnProperty''),
      (''isPrototypeOf'', native_code ''isPrototypeOf''),
      (''propertyIsEnumerable'', native_code ''propertyIsEnumerable''),
      (''__defineGetter__'', native_code ''__defineGetter__''),
      (''__defineSetter__'', native_code ''__defineSetter__''),
      (''__lookupGetter__'', native_code ''__lookupGetter__''),
      (''__lookupSetter__'', native_code ''__lookupSetter__''),
      (''__proto__'', ''[object Object]'')]"

definition language_name :: "string \<Rightarrow> string" where
  "language_name c =
     (case map_of SUPPORTED_LANGUAGES c of
        Some n \<Rightarrow> n
      | None \<Rightarrow> (case map_of Object_prototype c of Some r \<Rightarrow> r | None \<Rightarrow> ''undefined''))"

record TranslationRequest =
  tr_text :: string
  tr_fromLanguage :: string
  tr_toLanguage :: string
  tr_context :: "string option"

record prompt =
  contextPrompt :: string
  fromLang :: string
  toLang :: string
  textToTranslate :: string

definition contextPrompt_of :: "string \<Rightarrow> string" where
  "contextPrompt_of c =
     (if c = ''service'' then ''This is about cooking/maid services. ''
      else if c = ''requirement'' then ''This is about household service requirements. ''
      else if c = ''profile'' then ''This is profile information for a service provider. ''
      else [])"

definition is_quote :: "char \<Rightarrow> bool" where
  "is_quote c = (c = CHR 0x22 \<or> c = CHR 0x27)"

text \<open>\<open>replace(/^["']|["']$/g, '')\<close>: one quote at the start and one at the end.\<close>

definition strip_quotes :: "string \<Rightarrow> string" where
  "strip_quotes s =
     (let s1 = (case s of [] \<Rightarrow> [] | c # cs \<Rightarrow> if is_quote c then cs else s)
      in if s1 \<noteq> [] \<and> is_quote (last s1) then butlast s1 else s1)"

definition translateText ::
  "(prompt \<Rightarrow> string option) \<Rightarrow> TranslationRequest \<Rightarrow> string \<times> prompt list" where
  "translateText generateContent req =
     (if tr_fromLanguage req = tr_toLanguage req then (tr_text req, [])
      else
        (let context = (case tr_context req of None \<Rightarrow> ''general'' | Some c \<Rightarrow> c);
             p = \<lparr>contextPrompt = contextPrompt_of context,
                  fromLang = language_name (tr_fromLanguage req),
                  toLang = language_name (tr_toLanguage req),
                  textToTranslate = tr_text req\<rparr>
         in case generateContent p of
              None \<Rightarrow> (tr_text req, [p])
            | Some response \<Rightarrow> (strip_quotes (trim response), [p])))"

text \<open>\<open>Promise.all\<close>: the results in the order of the promises, or a rejection.\<close>

primrec promise_all :: "('e + 'a) list \<Rightarrow> 'e + 'a list" where
  "promise_all [] = Inr []"
| "promise_all (p # ps) =
     (case p of
        Inl err \<Rightarrow> Inl err
      | Inr v \<Rightarrow> (case promise_all ps of Inl err \<Rightarrow> Inl err | Inr vs \<Rightarrow> Inr (v # vs)))"

text \<open>\<open>Array.prototype.slice(i, j)\<close> for \<open>0 \<le> i \<le> j\<close>.\<close>

definition slice :: "'a list \<Rightarrow> nat \<Rightarrow> nat \<Rightarrow> 'a list" where
  "slice xs i j = take (j - i) (drop i xs)"

text \<open>
  \<open>translateBatch\<close>, over the function it calls for each text: in the repository that is
  \<open>translateText\<close>, whose promise never rejects because it catches every failure of its
  own. The loop returns, next to its outcome, the slices it has handed to
  \<open>Promise.all\<close>, in the order of the iterations; a rejection ends it in the
  \<open>catch\<close> of \<open>translateBatch\<close>, which returns the input.
\<close>

function translateBatch_loop ::
  "(TranslationRequest \<Rightarrow> 'e + string) \<Rightarrow> string \<Rightarrow> string \<Rightarrow> string option \<Rightarrow>
   string list \<Rightarrow> nat \<Rightarrow> string list \<Rightarrow> string list list \<Rightarrow>
   ('e + string list) \<times> string list list" where
  "translateBatch_loop translate fromLanguage toLanguage context texts i results batches =
     (if i < length texts then
        (let batch = slice texts i (i + 5);
             promises = map (\<lambda>t. translate \<lparr>tr_text = t, tr_fromLanguage = fromLanguage,
                                             tr_toLanguage = toLanguage, tr_context = context\<rparr>)
                          batch
         in case promise_all promises of
              Inl err \<Rightarrow> (Inl err, batches @ [batch])
            | Inr batchResults \<Rightarrow>
                translateBatch_loop translate fromLanguage toLanguage context texts (i + 5)
                  (results @ batchResults) (batches @ [batch]))
      else (Inr results, batches))"
  by pat_completeness auto
termination
  by (relation "measure (\<lambda>(translate, fromLanguage, toLanguage, context, texts, i, results, batches).
                          length texts - i)") auto

definition translateBatch_over ::
  "(TranslationRequest \<Rightarrow> 'e + string) \<Rightarrow> string list \<Rightarrow> string \<Rightarrow> string \<Rightarrow> string option \<Rightarrow>
   string list \<times> string list list" where
  "translateBatch_over translate texts fromLanguage toLanguage context =
     (case translateBatch_loop translate fromLanguage toLanguage context texts 0 [] [] of
        (Inl err, batches) \<Rightarrow> (texts, batches)
      | (Inr results, batches) \<Rightarrow> (results, batches))"

definition translateBatch ::
  "(prompt \<Rightarrow> string option) \<Rightarrow> string list \<Rightarrow> string \<Rightarrow> string \<Rightarrow> string option \<Rightarrow>
   string list \<times> string list list" where
  "translateBatch generateContent texts fromLanguage toLanguage context =
     translateBatch_over
       (\<lambda>req. (Inr (fst (translateText generateContent req)) :: unit + string))
       texts fromLanguage toLanguage context"

text \<open>Chunks of size 5: five elements at a time, the last chunk holding the rest.\<close>

function batches_of :: "'a list \<Rightarrow> 'a list list" where
  "batches_of xs = (if xs = [] then [] else take 5 xs # batches_of (drop 5 xs))"
  by pat_completeness auto
termination
  by (relation "measure length") auto

section \<open>Stored states\<close>

text \<open>The primary keys, the unique key of \<open>profiles.user_id\<close> and the foreign keys the
  view \<open>service_posts_view\<close> joins along. The store keeps them in every state.\<close>

definition schema_constraints :: "db \<Rightarrow> bool" where
  "schema_constraints d =
     (distinct (map u_id (users d)) \<and>
      distinct (map p_user_id (profiles d)) \<and>
      distinct (map wp_id (worker_profiles d)) \<and>
      list_all (\<lambda>w. wp_user_id w \<in> set (map u_id (users d))) (worker_profiles d) \<and>
      list_all (\<lambda>s. sp_worker_id s \<in> set (map wp_id (worker_profiles d))) (service_posts d))"

text \<open>A small state: a worker with a profile, a worker profile and three posts, one of
  them inactive, and a resident without a profile.\<close>

definition asha :: users_row where
  "asha = \<lparr>u_id = ''u1'', u_auth_id = ''a1'', u_role = ''WORKER'',
           u_created_at = 1, u_updated_at = 1\<rparr>"

definition ravi :: users_row where
  "ravi = \<lparr>u_id = ''u2'', u_auth_id = ''a2'', u_role = ''RESIDENT'',
           u_created_at = 2, u_updated_at = 2\<rparr>"

definition asha_profile :: profiles_row where
  "asha_profile =
     \<lparr>p_id = ''p1'', p_user_id = ''u1'', p_name = ''Asha'', p_phone = ''9000000001'',
      p_block = None, p_flat_no = None, p_age = None, p_verified = False,
      p_created_at = 3, p_updated_at = 3\<rparr>"

definition asha_worker :: worker_profiles_row where
  "asha_worker =
     \<lparr>wp_id = ''w1'', wp_user_id = ''u1'', wp_worker_type = ''COOK'', wp_cuisine = None,
      wp_experience_yrs = 2, wp_charges = 500, wp_long_term_offer = None, wp_rating = 0,
      wp_rating_count = 0, wp_time_slots = None, wp_created_at = 4, wp_updated_at = 4\<rparr>"

definition post :: "uuid \<Rightarrow> bool \<Rightarrow> timestamptz \<Rightarrow> service_posts_row" where
  "post i a t =
     \<lparr>sp_id = i, sp_worker_id = ''w1'', sp_title = ''Home cooking'', sp_cuisine = None,
      sp_price = 450, sp_service_area = None, sp_available_timing = None,
      sp_description = None, sp_time_slots = None, sp_is_active = a,
      sp_created_at = t, sp_updated_at = t\<rparr>"

definition society :: db where
  "society =
     \<lparr>users = [asha, ravi],
      profiles = [asha_profile],
      worker_profiles = [asha_worker],
      service_posts = [post ''s1'' True 5, post ''s2'' False 6, post ''s3'' True 7],
      requirements = []\<rparr>"

text \<open>The same state before the worker has completed the worker profile.\<close>

definition society_before :: db where
  "society_before = society\<lparr>worker_profiles := [], service_posts := []\<rparr>"

definition today :: env where
  "today = \<lparr>gen_random_uuid = ''n1'', now = 10\<rparr>"

text \<open>Request bodies, a language model that answers with the name of the target language
  and the text, and a translation that rejects one text.\<close>

definition role_body :: "string \<Rightarrow> json" where
  "role_body r = JObj [(''role'', JStr r)]"

definition profile_body :: "string \<Rightarrow> string \<Rightarrow> json" where
  "profile_body n ph = JObj [(''name'', JStr n), (''phone'', JStr ph)]"

definition service_body :: json where
  "service_body = JObj [(''title'', JStr ''Tiffin''), (''price'', JNum (Finite 450))]"

definition fractional_price_body :: json where
  "fractional_price_body =
     JObj [(''title'', JStr ''Tiffin''), (''price'', JNum (Finite (3 / 2)))]"

definition requirement_body :: json where
  "requirement_body = JObj [(''needType'', JStr ''COOK''), (''preferredPrice'', JNum (Finite 0))]"

definition ravi_profile :: profiles_row where
  "ravi_profile =
     \<lparr>p_id = ''n1'', p_user_id = ''u2'', p_name = ''Ravi'', p_phone = ''9000000002'',
      p_block = None, p_flat_no = None, p_age = None, p_verified = True,
      p_created_at = 10, p_updated_at = 10\<rparr>"

definition echo :: "prompt \<Rightarrow> string option" where
  "echo p = Some (toLang p @ '': '' @ textToTranslate p)"

definition rejecting :: "TranslationRequest \<Rightarrow> unit + string" where
  "rejecting req = (if tr_text req = ''c'' then Inl () else Inr (tr_text req))"

section \<open>Auxiliary facts\<close>

lemmas society_defs =
  society_def asha_def ravi_def asha_profile_def asha_worker_def post_def today_def

declare translateBatch_loop.simps [simp del]
declare batches_of.simps [simp del]

lemma z_enum_mem: "z_enum vs j = Some s \<Longrightarrow> s \<in> set vs"
  by (cases j) (auto split: if_splits)

lemma optional_z_enum_mem:
  "optional (z_enum vs) v = Some c \<Longrightarrow> c = None \<or> (\<exists>s. c = Some s \<and> s \<in> set vs)"
  by (auto simp: optional_def split: option.splits dest: z_enum_mem)

lemma filter_single_mem: "filter P xs = [x] \<Longrightarrow> x \<in> set xs \<and> P x"
proof -
  assume "filter P xs = [x]"
  then have "x \<in> set (filter P xs)" by simp
  then show ?thesis by simp
qed

lemma filter_map_if:
  "(\<And>u. P (f u) = P u) \<Longrightarrow>
     filter P (map (\<lambda>u. if P u then f u else u) xs) = map f (filter P xs)"
  by (induction xs) auto

lemma maybeSingle_Some: "snd (maybeSingle q) = Some r \<longleftrightarrow> q = Inr [r]"
  by (auto simp: maybeSingle_def split: sum.splits list.splits)

lemma maybeSingle_ok_Some: "maybeSingle q = (None, Some r) \<longleftrightarrow> q = Inr [r]"
  by (auto simp: maybeSingle_def split: sum.splits list.splits)

lemma int4_three_halves:
  "int4 (3 / 2) = Inl \<lparr>code = ''22P02'', message = ''invalid input syntax for type integer''\<rparr>"
proof -
  have "\<lfloor>3 / 2 :: rat\<rfloor> = 1" by (simp add: floor_eq_iff)
  then show ?thesis by (simp add: int4_def)
qed

lemma RoleSelectionBody_role:
  "RoleSelectionBody b = Some parsed \<Longrightarrow> rs_role parsed \<in> set [''RESIDENT'', ''WORKER'']"
  by (auto simp: RoleSelectionBody_def required_def
           split: if_splits option.splits Option.bind_splits dest!: z_enum_mem)

lemma ServicePostBody_cuisine:
  assumes "ServicePostBody b = Some parsed"
  shows "str_or_null (sb_cuisine parsed) \<in> set [None, Some ''NORTH'', Some ''SOUTH'', Some ''BOTH'']"
proof -
  from assms obtain c where
    "optional (z_enum [''NORTH'', ''SOUTH'', ''BOTH'']) (member_of b ''cuisine'') = Some c"
    and "sb_cuisine parsed = c"
    by (auto simp: ServicePostBody_def split: if_splits Option.bind_splits)
  then show ?thesis
    by (auto simp: str_or_null_def dest!: optional_z_enum_mem)
qed

lemma RequirementPostBody_fields:
  assumes "RequirementPostBody b = Some parsed"
  shows "rb_needType parsed \<in> set [''COOK'', ''MAID'', ''BOTH'']"
    and "rb_urgency parsed \<in> set [''LOW'', ''MEDIUM'', ''HIGH'']"
    and "optional (z_number_min 0) (member_of b ''preferredPrice'') = Some (rb_preferredPrice parsed)"
  using assms
  by (auto simp: RequirementPostBody_def required_def defaulted_def
           split: if_splits Option.bind_splits option.splits dest!: z_enum_mem)

section \<open>Role selection\<close>

text \<open>
  C5. A \<open>POST /select-role\<close> with a valid role, for a subject without a \<open>users\<close> row and
  a fresh identifier from the store, appends one row with that role, after which the
  subject has exactly that row; for a subject with a row it overwrites the role of that
  row in place, the number of rows unchanged. In both cases the response is 200 with the
  identifier of that row and the role.
\<close>

theorem select_role_single_user:
  assumes "RoleSelectionBody reqBody = Some parsed"
  shows "(users_by_auth_id d authId = Inr [] \<and> gen_random_uuid e \<notin> set (map u_id (users d)) \<longrightarrow>
            (let row = \<lparr>u_id = gen_random_uuid e, u_auth_id = authId, u_role = rs_role parsed,
                        u_created_at = now e, u_updated_at = now e\<rparr>;
                 d' = d\<lparr>users := users d @ [row]\<rparr>
             in select_role e d authId reqBody =
                  (Response 200 (RoleSelected (u_id row) (rs_role parsed)), d') \<and>
                users_by_auth_id d' authId = Inr [row]))
       \<and> (users_by_auth_id d authId = Inr [u] \<longrightarrow>
            (let d' = d\<lparr>users := map (\<lambda>r. if u_auth_id r = authId
                                           then r\<lparr>u_role := rs_role parsed\<rparr> else r) (users d)\<rparr>
             in select_role e d authId reqBody =
                  (Response 200 (RoleSelected (u_id u) (rs_role parsed)), d') \<and>
                users_by_auth_id d' authId = Inr [u\<lparr>u_role := rs_role parsed\<rparr>] \<and>
                length (users d') = length (users d)))"
proof -
  have role: "rs_role parsed \<in> set [''RESIDENT'', ''WORKER'']"
    using RoleSelectionBody_role [OF assms] by auto
  show ?thesis
  proof (intro conjI impI)
    assume h: "users_by_auth_id d authId = Inr [] \<and> gen_random_uuid e \<notin> set (map u_id (users d))"
    then have "authId \<notin> set (map u_auth_id (users d))"
      by (auto simp: users_by_auth_id_def filter_empty_conv)
    with h role assms
    show "let row = \<lparr>u_id = gen_random_uuid e, u_auth_id = authId, u_role = rs_role parsed,
                     u_created_at = now e, u_updated_at = now e\<rparr>;
              d' = d\<lparr>users := users d @ [row]\<rparr>
          in select_role e d authId reqBody =
               (Response 200 (RoleSelected (u_id row) (rs_role parsed)), d') \<and>
             users_by_auth_id d' authId = Inr [row]"
      by (simp add: select_role_def maybeSingle_def users_insert_def Let_def users_by_auth_id_def)
  next
    assume h: "users_by_auth_id d authId = Inr [u]"
    have f: "filter (\<lambda>u. u_auth_id u = authId)
               (map (\<lambda>r. if u_auth_id r = authId then r\<lparr>u_role := rs_role parsed\<rparr> else r) (users d))
             = map (\<lambda>r. r\<lparr>u_role := rs_role parsed\<rparr>) (filter (\<lambda>u. u_auth_id u = authId) (users d))"
      by (rule filter_map_if) simp
    from h role assms f
    show "let d' = d\<lparr>users := map (\<lambda>r. if u_auth_id r = authId
                                        then r\<lparr>u_role := rs_role parsed\<rparr> else r) (users d)\<rparr>
          in select_role e d authId reqBody =
               (Response 200 (RoleSelected (u_id u) (rs_role parsed)), d') \<and>
             users_by_auth_id d' authId = Inr [u\<lparr>u_role := rs_role parsed\<rparr>] \<and>
             length (users d') = length (users d)"
      by (simp add: select_role_def maybeSingle_def users_update_role_def Let_def
                    users_by_auth_id_def)
  qed
qed

theorem select_role_single_user_witness:
  "RoleSelectionBody (role_body ''WORKER'') = Some \<lparr>rs_role = ''WORKER''\<rparr>
   \<and> users_by_auth_id society ''a3'' = Inr []
   \<and> select_role today society ''a3'' (role_body ''WORKER'') =
     (Response 200 (RoleSelected ''n1'' ''WORKER''),
      society\<lparr>users := [asha, ravi, \<lparr>u_id = ''n1'', u_auth_id = ''a3'', u_role = ''WORKER'',
                                      u_created_at = 10, u_updated_at = 10\<rparr>]\<rparr>)
   \<and> users_by_auth_id society ''a2'' = Inr [ravi]
   \<and> select_role today society ''a2'' (role_body ''WORKER'') =
     (Response 200 (RoleSelected ''u2'' ''WORKER''),
      society\<lparr>users := [asha, ravi\<lparr>u_role := ''WORKER''\<rparr>]\<rparr>)"
proof -
  have p: "RoleSelectionBody (role_body ''WORKER'') = Some \<lparr>rs_role = ''WORKER''\<rparr>"
    by (simp add: RoleSelectionBody_def role_body_def required_def)
  have n: "users_by_auth_id society ''a3'' = Inr [] \<and>
           gen_random_uuid today \<notin> set (map u_id (users society))"
    by (simp add: users_by_auth_id_def society_def asha_def ravi_def today_def)
  have o: "users_by_auth_id society ''a2'' = Inr [ravi]"
    by (simp add: users_by_auth_id_def society_def asha_def ravi_def)
  from select_role_single_user [OF p, where d = society and authId = "''a3''" and e = today] n
       select_role_single_user [OF p, where d = society and authId = "''a2''" and u = ravi] o p
  show ?thesis
    by (simp add: Let_def society_def asha_def ravi_def today_def)
qed

section \<open>Translation: the same language\<close>

text \<open>
  C7. For every text and every language code, \<open>translateText\<close> with the same source and
  target language returns the text unchanged and sends nothing to the language model.
\<close>

theorem translateText_same_language:
  "translateText generateContent
     \<lparr>tr_text = t, tr_fromLanguage = l, tr_toLanguage = l, tr_context = c\<rparr> = (t, [])"
  by (simp add: translateText_def)

section \<open>Profile upsert\<close>

lemma profiles_update_ok:
  assumes "profiles_update_by_user_id d uid v = (Inr p, d')"
  shows "p_verified p = pv_verified v \<and> filter (\<lambda>p. p_user_id p = uid) (profiles d') = [p]"
proof (cases "int4_opt (pv_age v)")
  case (Inl err)
  with assms show ?thesis by (simp add: profiles_update_by_user_id_def)
next
  case (Inr age)
  have fm: "filter (\<lambda>p. p_user_id p = uid)
          (map (\<lambda>p. if p_user_id p = uid then profiles_set v age p else p) (profiles d))
        = map (profiles_set v age) (filter (\<lambda>p. p_user_id p = uid) (profiles d))"
    by (rule filter_map_if) (simp add: profiles_set_def)
  show ?thesis
  proof (cases "filter (\<lambda>p. p_user_id p = uid) (profiles d)")
    case Nil
    with assms Inr show ?thesis by (simp add: profiles_update_by_user_id_def)
  next
    case (Cons p0 ps)
    with assms Inr have ps: "ps = []"
      by (cases ps) (simp_all add: profiles_update_by_user_id_def)
    with assms Inr Cons have
      "p = profiles_set v age p0"
      "profiles d' = map (\<lambda>p. if p_user_id p = uid then profiles_set v age p else p) (profiles d)"
      by (auto simp: profiles_update_by_user_id_def split: if_splits)
    with fm Cons ps show ?thesis by (simp add: profiles_set_def)
  qed
qed

lemma profiles_insert_ok:
  assumes "profiles_insert e d uid v = (Inr p, d')"
  shows "p_verified p = pv_verified v \<and> filter (\<lambda>p. p_user_id p = uid) (profiles d') = [p]"
proof (cases "int4_opt (pv_age v)")
  case (Inl err)
  with assms show ?thesis by (simp add: profiles_insert_def)
next
  case (Inr age)
  with assms have fresh: "uid \<notin> set (map p_user_id (profiles d))"
    and "profiles d' = profiles d @ [p]" and "p_user_id p = uid" and "p_verified p = pv_verified v"
    by (auto simp: profiles_insert_def Let_def split: if_splits)
  from fresh have "filter (\<lambda>p. p_user_id p = uid) (profiles d) = []"
    by (auto simp: filter_empty_conv)
  with \<open>profiles d' = profiles d @ [p]\<close> \<open>p_user_id p = uid\<close> \<open>p_verified p = pv_verified v\<close>
  show ?thesis by simp
qed

text \<open>
  C1. Whenever \<open>POST /profile\<close> answers 200, the caller has one \<open>users\<close> row, with a
  role, the body is a profile row, and in the state the request leaves that row is the one
  profile row of the caller and its \<open>verified\<close> is true. The request may have taken the
  insert or the update branch.
\<close>

theorem post_profile_verified:
  assumes "post_profile e d authId reqBody = (Response 200 b, d')"
  shows "\<exists>u p. users_by_auth_id d authId = Inr [u] \<and> u_role u \<noteq> [] \<and> b = ProfileData p \<and>
               filter (\<lambda>p. p_user_id p = u_id u) (profiles d') = [p] \<and> p_verified p = True"
proof -
  from assms obtain parsed u where
    parsed: "ProfileBody reqBody = Some parsed" and
    u: "users_by_auth_id d authId = Inr [u]" "u_role u \<noteq> []"
    by (auto simp: post_profile_def maybeSingle_ok_Some split: option.splits prod.splits if_splits)
  let ?v = "profile_values_of parsed"
  have v: "pv_verified ?v = True" by (simp add: profile_values_of_def)
  from u have ms: "maybeSingle (users_by_auth_id d authId) = (None, Some u)"
    by (simp add: maybeSingle_def)
  show ?thesis
  proof (cases "snd (maybeSingle (profiles_by_user_id d (u_id u)))")
    case None
    with assms parsed ms u obtain p where
      "profiles_insert e d (u_id u) ?v = (Inr p, d')" "b = ProfileData p"
      by (auto simp: post_profile_def profile_write_response_def Let_def
               split: prod.splits sum.splits if_splits)
    with profiles_insert_ok [of e d "u_id u" ?v p d'] v u show ?thesis by auto
  next
    case (Some existingProfile)
    with assms parsed ms u obtain p where
      "profiles_update_by_user_id d (u_id u) ?v = (Inr p, d')" "b = ProfileData p"
      by (auto simp: post_profile_def profile_write_response_def Let_def
               split: prod.splits sum.splits if_splits)
    with profiles_update_ok [of d "u_id u" ?v p d'] v u show ?thesis by auto
  qed
qed

theorem post_profile_verified_witness:
  "post_profile today society ''a2'' (profile_body ''Ravi'' '' 9000000002 '') =
     (Response 200 (ProfileData ravi_profile), society\<lparr>profiles := [asha_profile, ravi_profile]\<rparr>)
   \<and> filter (\<lambda>p. p_user_id p = ''u2'') [asha_profile, ravi_profile] = [ravi_profile]
   \<and> p_verified ravi_profile = True"
proof -
  have ev: "post_profile today society ''a2'' (profile_body ''Ravi'' '' 9000000002 '') =
     (Response 200 (ProfileData ravi_profile), society\<lparr>profiles := [asha_profile, ravi_profile]\<rparr>)"
    by (simp add: post_profile_def ProfileBody_def profile_body_def required_def optional_def
          maybeSingle_def users_by_auth_id_def profiles_by_user_id_def society_def asha_def ravi_def
          asha_profile_def profile_values_of_def trim_def js_space_def str_or_null_def
          num_or_null_def profiles_insert_def int4_opt_def today_def Let_def
          profile_write_response_def ravi_profile_def)
  have u: "users_by_auth_id society ''a2'' = Inr [ravi]"
    by (simp add: users_by_auth_id_def society_def asha_def ravi_def)
  from post_profile_verified [OF ev] u
  have "filter (\<lambda>p. p_user_id p = u_id ravi) (profiles (society\<lparr>profiles := [asha_profile, ravi_profile]\<rparr>)) = [ravi_profile]
        \<and> p_verified ravi_profile = True"
    by auto
  with ev show ?thesis by (simp add: ravi_def)
qed

text \<open>The update branch, on the profile the worker already has.\<close>

lemma post_profile_update_branch:
  "post_profile today society ''a1'' (profile_body ''Asha K'' ''9000000001'') =
     (Response 200 (ProfileData (asha_profile\<lparr>p_name := ''Asha K'', p_verified := True\<rparr>)),
      society\<lparr>profiles := [asha_profile\<lparr>p_name := ''Asha K'', p_verified := True\<rparr>]\<rparr>)"
  by (simp add: post_profile_def ProfileBody_def profile_body_def required_def optional_def
        maybeSingle_def users_by_auth_id_def profiles_by_user_id_def society_defs
        profile_values_of_def trim_def js_space_def str_or_null_def
        num_or_null_def profiles_update_by_user_id_def profiles_set_def int4_opt_def Let_def
        profile_write_response_def)

text \<open>
  C4. When the write of \<open>POST /profile\<close> (the update of the caller's profile row if
  there is one, the insert otherwise) fails, the response is the one
  \<open>profile_write_response\<close> computes from the error: 409 with
  \<open>Phone number already in use\<close> for code 23505 and a message that contains \<open>phone\<close>,
  409 with \<open>Profile already exists\<close> for any other error of code 23505, and 500 for
  every other code. The classification holds for every error value.
\<close>

theorem profile_write_failure:
  assumes "ProfileBody reqBody = Some parsed"
      and "maybeSingle (users_by_auth_id d authId) = (None, Some u)"
      and "u_role u \<noteq> []"
      and "w = (case snd (maybeSingle (profiles_by_user_id d (u_id u))) of
                  Some existingProfile \<Rightarrow>
                    profiles_update_by_user_id d (u_id u) (profile_values_of parsed)
                | None \<Rightarrow> profiles_insert e d (u_id u) (profile_values_of parsed))"
      and "fst w = Inl err"
  shows "fst (post_profile e d authId reqBody) = profile_write_response (Inl err) \<and>
         (\<forall>x. profile_write_response (Inl x) =
           (if code x = ''23505'' then
              if str_includes (message x) ''phone''
                then Response 409 (Error ''Phone number already in use'')
              else Response 409 (Error ''Profile already exists'')
            else Response 500 (ErrorDetails ''Failed to save profile'' (message x))))"
  using assms
  by (auto simp: post_profile_def profile_write_response_def Let_def
           split: option.splits prod.splits)

theorem profile_write_failure_witness:
  "profiles_insert today society ''u2''
       (profile_values_of \<lparr>pb_name = ''Ravi'', pb_phone = ''9000000001'', pb_block = None,
                            pb_flatNo = None, pb_age = None\<rparr>) =
     (Inl (unique_violation ''profiles_phone_key''), society)
   \<and> fst (post_profile today society ''a2'' (profile_body ''Ravi'' ''9000000001'')) =
       Response 409 (Error ''Phone number already in use'')
   \<and> profile_write_response (Inl (unique_violation ''profiles_user_id_key'')) =
       Response 409 (Error ''Profile already exists'')
   \<and> profile_write_response (Inl not_single) =
       Response 500 (ErrorDetails ''Failed to save profile''
                       ''JSON object requested, multiple (or no) rows returned'')"
proof -
  let ?parsed = "\<lparr>pb_name = ''Ravi'', pb_phone = ''9000000001'', pb_block = None,
                   pb_flatNo = None, pb_age = None\<rparr>"
  have p: "ProfileBody (profile_body ''Ravi'' ''9000000001'') = Some ?parsed"
    by (simp add: ProfileBody_def profile_body_def required_def optional_def)
  have u: "maybeSingle (users_by_auth_id society ''a2'') = (None, Some ravi)"
    by (simp add: maybeSingle_def users_by_auth_id_def society_defs)
  have r: "u_role ravi \<noteq> []" by (simp add: ravi_def)
  have n: "snd (maybeSingle (profiles_by_user_id society (u_id ravi))) = None"
    by (simp add: maybeSingle_def profiles_by_user_id_def society_defs)
  have i: "profiles_insert today society ''u2'' (profile_values_of ?parsed) =
             (Inl (unique_violation ''profiles_phone_key''), society)"
    by (simp add: profiles_insert_def profile_values_of_def trim_def js_space_def
          str_or_null_def num_or_null_def int4_opt_def Let_def society_defs)
  have w: "(Inl (unique_violation ''profiles_phone_key''), society) =
           (case snd (maybeSingle (profiles_by_user_id society (u_id ravi))) of
                  Some existingProfile \<Rightarrow>
                    profiles_update_by_user_id society (u_id ravi) (profile_values_of ?parsed)
                | None \<Rightarrow> profiles_insert today society (u_id ravi) (profile_values_of ?parsed))"
    using i by (simp add: n) (simp add: ravi_def)
  have f: "fst (Inl (unique_violation ''profiles_phone_key'') :: pg_error + profiles_row, society) =
             Inl (unique_violation ''profiles_phone_key'')"
    by simp
  note t = profile_write_failure [OF p u r w f]
  have c: "code (unique_violation ''profiles_phone_key'') = ''23505''"
          "str_includes (message (unique_violation ''profiles_phone_key'')) ''phone''"
          "code (unique_violation ''profiles_user_id_key'') = ''23505''"
          "\<not> str_includes (message (unique_violation ''profiles_user_id_key'')) ''phone''"
          "code not_single \<noteq> ''23505''"
          "message not_single = ''JSON object requested, multiple (or no) rows returned''"
    by (simp_all add: unique_violation_def not_single_def)
  from t c i show ?thesis by simp
qed

section \<open>Service posts\<close>

text \<open>
  C3. For a valid body and a caller whose one \<open>users\<close> row has the role WORKER: without
  a \<open>worker_profiles\<close> row of the caller the answer is 400 and nothing is written; with
  the caller's worker profile and a fresh identifier from the store, a price the \<open>int\<close>
  column takes gives 200 and the state gains one post that references that worker
  profile, while a price the column refuses (a fraction, a number out of range) gives 500
  and nothing is written. A caller of another role, or without a \<open>users\<close> row, gets 403
  and nothing is written.
\<close>

theorem post_services_worker_profile:
  assumes "ServicePostBody reqBody = Some parsed"
  shows "(filter (\<lambda>x. u_auth_id x = authId) (users d) = [u] \<and> u_role u = ''WORKER'' \<and>
          filter (\<lambda>x. wp_user_id x = u_id u) (worker_profiles d) = [] \<longrightarrow>
            post_services e d authId reqBody =
              (Response 400 (Error ''Please complete your worker profile first''), d))
       \<and> (filter (\<lambda>x. u_auth_id x = authId) (users d) = [u] \<and> u_role u = ''WORKER'' \<and>
          filter (\<lambda>x. wp_user_id x = u_id u) (worker_profiles d) = [w] \<and>
          int4_not_null ''service_posts'' ''price'' (sb_price parsed) = Inr price \<and>
          gen_random_uuid e \<notin> set (map sp_id (service_posts d)) \<longrightarrow>
            (\<exists>row. post_services e d authId reqBody =
                     (Response 200 (ServicePostData row),
                      d\<lparr>service_posts := service_posts d @ [row]\<rparr>) \<and>
                   sp_worker_id row = wp_id w \<and> wp_user_id w = u_id u \<and>
                   w \<in> set (worker_profiles d) \<and> sp_id row = gen_random_uuid e \<and>
                   sp_title row = sb_title parsed \<and> sp_price row = price \<and>
                   sp_is_active row = True))
       \<and> (filter (\<lambda>x. u_auth_id x = authId) (users d) = [u] \<and> u_role u = ''WORKER'' \<and>
          filter (\<lambda>x. wp_user_id x = u_id u) (worker_profiles d) = [w] \<and>
          int4_not_null ''service_posts'' ''price'' (sb_price parsed) = Inl err \<longrightarrow>
            post_services e d authId reqBody =
              (Response 500 (ErrorDetails ''Failed to create service post'' (message err)), d))
       \<and> (filter (\<lambda>x. u_auth_id x = authId) (users d) = [u] \<and> u_role u \<noteq> ''WORKER'' \<longrightarrow>
            post_services e d authId reqBody =
              (Response 403 (Error ''Only workers can post services''), d))
       \<and> (filter (\<lambda>x. u_auth_id x = authId) (users d) = [] \<longrightarrow>
            post_services e d authId reqBody =
              (Response 403 (Error ''Only workers can post services''), d))"
proof (intro conjI impI)
  assume "filter (\<lambda>x. u_auth_id x = authId) (users d) = [u] \<and> u_role u = ''WORKER'' \<and>
          filter (\<lambda>x. wp_user_id x = u_id u) (worker_profiles d) = []"
  with assms show "post_services e d authId reqBody =
              (Response 400 (Error ''Please complete your worker profile first''), d)"
    by (simp add: post_services_def maybeSingle_def users_by_auth_id_def
                  worker_profiles_by_user_id_def)
next
  assume h: "filter (\<lambda>x. u_auth_id x = authId) (users d) = [u] \<and> u_role u = ''WORKER'' \<and>
          filter (\<lambda>x. wp_user_id x = u_id u) (worker_profiles d) = [w] \<and>
          int4_not_null ''service_posts'' ''price'' (sb_price parsed) = Inr price \<and>
          gen_random_uuid e \<notin> set (map sp_id (service_posts d))"
  then have w: "w \<in> set (worker_profiles d)" "wp_user_id w = u_id u"
    by (auto dest: filter_single_mem)
  then have fk: "wp_id w \<in> wp_id ` set (worker_profiles d)" by (intro imageI)
  from ServicePostBody_cuisine [OF assms]
  have c: "str_or_null (sb_cuisine parsed) \<in> set [None, Some ''NORTH'', Some ''SOUTH'', Some ''BOTH'']" .
  from h have fresh: "gen_random_uuid e \<notin> set (map sp_id (service_posts d))" by simp
  from assms h w show "\<exists>row. post_services e d authId reqBody =
                     (Response 200 (ServicePostData row),
                      d\<lparr>service_posts := service_posts d @ [row]\<rparr>) \<and>
                   sp_worker_id row = wp_id w \<and> wp_user_id w = u_id u \<and>
                   w \<in> set (worker_profiles d) \<and> sp_id row = gen_random_uuid e \<and>
                   sp_title row = sb_title parsed \<and> sp_price row = price \<and>
                   sp_is_active row = True"
    by (simp add: post_services_def maybeSingle_def users_by_auth_id_def
                  worker_profiles_by_user_id_def service_posts_insert_def Let_def fk c fresh
             del: set_simps)
next
  assume "filter (\<lambda>x. u_auth_id x = authId) (users d) = [u] \<and> u_role u = ''WORKER'' \<and>
          filter (\<lambda>x. wp_user_id x = u_id u) (worker_profiles d) = [w] \<and>
          int4_not_null ''service_posts'' ''price'' (sb_price parsed) = Inl err"
  with assms show "post_services e d authId reqBody =
              (Response 500 (ErrorDetails ''Failed to create service post'' (message err)), d)"
    by (simp add: post_services_def maybeSingle_def users_by_auth_id_def
                  worker_profiles_by_user_id_def service_posts_insert_def)
next
  assume "filter (\<lambda>x. u_auth_id x = authId) (users d) = [u] \<and> u_role u \<noteq> ''WORKER''"
  with assms show "post_services e d authId reqBody =
              (Response 403 (Error ''Only workers can post services''), d)"
    by (simp add: post_services_def maybeSingle_def users_by_auth_id_def)
next
  assume "filter (\<lambda>x. u_auth_id x = authId) (users d) = []"
  with assms show "post_services e d authId reqBody =
              (Response 403 (Error ''Only workers can post services''), d)"
    by (simp add: post_services_def maybeSingle_def users_by_auth_id_def)
qed

theorem post_services_worker_profile_witness:
  "ServicePostBody service_body =
     Some \<lparr>sb_title = ''Tiffin'', sb_cuisine = None, sb_price = Finite 450,
           sb_serviceArea = None, sb_availableTiming = None, sb_description = None,
           sb_timeSlots = None\<rparr>
   \<and> schema_constraints society_before \<and> schema_constraints society
   \<and> post_services today society_before ''a1'' service_body =
       (Response 400 (Error ''Please complete your worker profile first''), society_before)
   \<and> (\<exists>row. post_services today society ''a1'' service_body =
               (Response 200 (ServicePostData row),
                society\<lparr>service_posts := service_posts society @ [row]\<rparr>) \<and>
             sp_worker_id row = ''w1'' \<and> wp_user_id asha_worker = ''u1'' \<and>
             sp_id row = ''n1'' \<and> sp_title row = ''Tiffin'' \<and> sp_price row = 450)
   \<and> post_services today society ''a1'' fractional_price_body =
       (Response 500 (ErrorDetails ''Failed to create service post''
                        ''invalid input syntax for type integer''), society)
   \<and> post_services today society ''a2'' service_body =
       (Response 403 (Error ''Only workers can post services''), society)
   \<and> post_services today society ''a3'' service_body =
       (Response 403 (Error ''Only workers can post services''), society)"
proof -
  let ?parsed = "\<lparr>sb_title = ''Tiffin'', sb_cuisine = None, sb_price = Finite 450,
           sb_serviceArea = None, sb_availableTiming = None, sb_description = None,
           sb_timeSlots = None\<rparr>"
  let ?frac = "\<lparr>sb_title = ''Tiffin'', sb_cuisine = None, sb_price = Finite (3 / 2),
           sb_serviceArea = None, sb_availableTiming = None, sb_description = None,
           sb_timeSlots = None\<rparr>"
  have p: "ServicePostBody service_body = Some ?parsed"
    by (simp add: ServicePostBody_def service_body_def required_def optional_def)
  have q: "ServicePostBody fractional_price_body = Some ?frac"
    by (simp add: ServicePostBody_def fractional_price_body_def required_def optional_def)
  have sc: "schema_constraints society_before" "schema_constraints society"
    by (simp_all add: schema_constraints_def society_before_def society_defs)
  have h1: "filter (\<lambda>x. u_auth_id x = ''a1'') (users society_before) = [asha] \<and>
            u_role asha = ''WORKER'' \<and>
            filter (\<lambda>x. wp_user_id x = u_id asha) (worker_profiles society_before) = []"
    by (simp add: society_before_def society_defs)
  have h2: "filter (\<lambda>x. u_auth_id x = ''a1'') (users society) = [asha] \<and>
            u_role asha = ''WORKER'' \<and>
            filter (\<lambda>x. wp_user_id x = u_id asha) (worker_profiles society) = [asha_worker] \<and>
            int4_not_null ''service_posts'' ''price'' (sb_price ?parsed) = Inr 450 \<and>
            gen_random_uuid today \<notin> set (map sp_id (service_posts society))"
    by (simp add: int4_not_null_def json_number_def int4_def society_defs)
  have h3: "filter (\<lambda>x. u_auth_id x = ''a1'') (users society) = [asha] \<and>
            u_role asha = ''WORKER'' \<and>
            filter (\<lambda>x. wp_user_id x = u_id asha) (worker_profiles society) = [asha_worker] \<and>
            int4_not_null ''service_posts'' ''price'' (sb_price ?frac) =
              Inl \<lparr>code = ''22P02'', message = ''invalid input syntax for type integer''\<rparr>"
    by (simp add: int4_not_null_def json_number_def int4_three_halves society_defs)
  have h4: "filter (\<lambda>x. u_auth_id x = ''a2'') (users society) = [ravi] \<and> u_role ravi \<noteq> ''WORKER''"
    by (simp add: society_defs)
  have h5: "filter (\<lambda>x. u_auth_id x = ''a3'') (users society) = []"
    by (simp add: society_defs)
  from post_services_worker_profile
         [OF p, where d = society_before and authId = "''a1''" and u = asha and e = today] h1
  have c1: "post_services today society_before ''a1'' service_body =
       (Response 400 (Error ''Please complete your worker profile first''), society_before)"
    by blast
  from post_services_worker_profile
         [OF p, where d = society and authId = "''a1''" and u = asha and w = asha_worker
                  and price = 450 and e = today] h2
  have c2: "\<exists>row. post_services today society ''a1'' service_body =
               (Response 200 (ServicePostData row),
                society\<lparr>service_posts := service_posts society @ [row]\<rparr>) \<and>
             sp_worker_id row = wp_id asha_worker \<and> wp_user_id asha_worker = u_id asha \<and>
             sp_id row = gen_random_uuid today \<and>
             sp_title row = sb_title ?parsed \<and> sp_price row = 450" by blast
  from post_services_worker_profile
         [OF q, where d = society and authId = "''a1''" and u = asha and w = asha_worker
                  and e = today
                  and err = "\<lparr>code = ''22P02'', message = ''invalid input syntax for type integer''\<rparr>"] h3
  have c3: "post_services today society ''a1'' fractional_price_body =
       (Response 500 (ErrorDetails ''Failed to create service post''
                        (message \<lparr>code = ''22P02'', message = ''invalid input syntax for type integer''\<rparr>)),
        society)" by blast
  from post_services_worker_profile
         [OF p, where d = society and authId = "''a2''" and u = ravi and e = today] h4
  have c4: "post_services today society ''a2'' service_body =
       (Response 403 (Error ''Only workers can post services''), society)" by blast
  from post_services_worker_profile [OF p, where d = society and authId = "''a3''" and e = today] h5
  have c5: "post_services today society ''a3'' service_body =
       (Response 403 (Error ''Only workers can post services''), society)" by blast
  from c2 have c2': "\<exists>row. post_services today society ''a1'' service_body =
               (Response 200 (ServicePostData row),
                society\<lparr>service_posts := service_posts society @ [row]\<rparr>) \<and>
             sp_worker_id row = ''w1'' \<and> wp_user_id asha_worker = ''u1'' \<and>
             sp_id row = ''n1'' \<and> sp_title row = ''Tiffin'' \<and> sp_price row = 450"
    by (simp add: asha_worker_def asha_def today_def)
  from c3 have c3': "post_services today society ''a1'' fractional_price_body =
       (Response 500 (ErrorDetails ''Failed to create service post''
                        ''invalid input syntax for type integer''), society)" by simp
  from p sc c1 c2' c3' c4 c5 show ?thesis by blast
qed

text \<open>
  The same validated request, with the price 3/2, sent by the worker \<open>a1\<close>: 400 before
  the worker profile exists, and 500, with nothing written, once it exists.
\<close>

theorem post_services_fractional_price:
  "ServicePostBody fractional_price_body =
     Some \<lparr>sb_title = ''Tiffin'', sb_cuisine = None, sb_price = Finite (3 / 2),
           sb_serviceArea = None, sb_availableTiming = None, sb_description = None,
           sb_timeSlots = None\<rparr>
   \<and> filter (\<lambda>x. u_auth_id x = ''a1'') (users society) = [asha]
   \<and> u_role asha = ''WORKER''
   \<and> filter (\<lambda>x. wp_user_id x = u_id asha) (worker_profiles society_before) = []
   \<and> post_services today society_before ''a1'' fractional_price_body =
       (Response 400 (Error ''Please complete your worker profile first''), society_before)
   \<and> filter (\<lambda>x. wp_user_id x = u_id asha) (worker_profiles society) = [asha_worker]
   \<and> gen_random_uuid today \<notin> set (map sp_id (service_posts society))
   \<and> post_services today society ''a1'' fractional_price_body =
       (Response 500 (ErrorDetails ''Failed to create service post''
                        ''invalid input syntax for type integer''), society)"
  by (simp add: ServicePostBody_def fractional_price_body_def required_def optional_def
                post_services_def maybeSingle_def users_by_auth_id_def
                worker_profiles_by_user_id_def service_posts_insert_def int4_not_null_def
                json_number_def int4_three_halves str_or_null_def any_or_null_def
                society_before_def society_defs)

lemma view_post_mem: "r \<in> set (service_posts_view d) \<Longrightarrow> v_post r \<in> set (service_posts d)"
  by (auto simp: service_posts_view_def)

text \<open>
  C10. Whenever \<open>PATCH /services/:id/toggle\<close> answers 200, exactly one post has the
  identifier of the path, the body is that post with \<open>is_active\<close> negated, and the state
  the request leaves differs from the one before only in the \<open>is_active\<close> of that post:
  every other column of the post, every other post and every other relation is as before.
\<close>

theorem toggle_service_frame:
  assumes "toggle_service d authId (route_params sid) = (Response 200 b, d')"
  shows "\<exists>s. filter (\<lambda>r. sp_id r = sid) (service_posts d) = [s] \<and>
             b = ServicePostData (s\<lparr>sp_is_active := \<not> sp_is_active s\<rparr>) \<and>
             d' = d\<lparr>service_posts :=
                     map (\<lambda>r. if sp_id r = sid then r\<lparr>sp_is_active := \<not> sp_is_active r\<rparr> else r)
                       (service_posts d)\<rparr>"
proof -
  have p: "route_params sid ''id'' = Some sid" by (simp add: route_params_def)
  from assms obtain service where
    look: "snd (maybeSingle (service_posts_view_owned d (Some sid) authId)) = Some service"
    by (auto simp: toggle_service_def p Let_def split: option.splits)
  then have "filter (\<lambda>r. sp_id (v_post r) = sid \<and> v_auth_id r = authId) (service_posts_view d)
               = [service]"
    by (simp add: maybeSingle_Some service_posts_view_owned_def eq_uuid_def)
  then have sv: "service \<in> set (service_posts_view d)" "sp_id (v_post service) = sid"
    by (auto dest: filter_single_mem)
  let ?a = "\<not> sp_is_active (v_post service)"
  from assms look have upd:
    "service_posts_update_is_active d (Some sid) ?a = (Inr (case b of ServicePostData r \<Rightarrow> r), d')"
    "b = ServicePostData (case b of ServicePostData r \<Rightarrow> r)"
    by (auto simp: toggle_service_def p Let_def split: prod.splits sum.splits)
  show ?thesis
  proof (cases "filter (\<lambda>r. sp_id r = sid) (service_posts d)")
    case Nil
    with upd show ?thesis by (simp add: service_posts_update_is_active_def eq_uuid_def)
  next
    case (Cons s ss)
    with upd have ss: "ss = []"
      by (cases ss) (simp_all add: service_posts_update_is_active_def eq_uuid_def)
    from view_post_mem [OF sv(1)] sv(2)
    have "v_post service \<in> set (filter (\<lambda>r. sp_id r = sid) (service_posts d))"
      by simp
    with Cons ss have s: "v_post service = s" by simp
    have same: "\<And>r. r \<in> set (service_posts d) \<Longrightarrow> sp_id r = sid \<Longrightarrow> r = s"
    proof -
      fix r assume "r \<in> set (service_posts d)" "sp_id r = sid"
      then have "r \<in> set (filter (\<lambda>r. sp_id r = sid) (service_posts d))" by simp
      with Cons ss show "r = s" by simp
    qed
    have m: "map (\<lambda>r. if sp_id r = sid then r\<lparr>sp_is_active := \<not> sp_is_active s\<rparr> else r)
                 (service_posts d)
           = map (\<lambda>r. if sp_id r = sid then r\<lparr>sp_is_active := \<not> sp_is_active r\<rparr> else r)
                 (service_posts d)"
      by (rule map_cong) (auto dest: same)
    from upd Cons ss s have
      "b = ServicePostData (s\<lparr>sp_is_active := \<not> sp_is_active s\<rparr>)"
      "d' = d\<lparr>service_posts :=
               map (\<lambda>r. if sp_id r = sid then r\<lparr>sp_is_active := \<not> sp_is_active s\<rparr> else r)
                 (service_posts d)\<rparr>"
      by (auto simp: service_posts_update_is_active_def eq_uuid_def)
    with m Cons ss show ?thesis by simp
  qed
qed

theorem toggle_service_frame_witness:
  "toggle_service society ''a1'' (route_params ''s2'') =
     (Response 200 (ServicePostData (post ''s2'' True 6)),
      society\<lparr>service_posts := [post ''s1'' True 5, post ''s2'' True 6, post ''s3'' True 7]\<rparr>)
   \<and> filter (\<lambda>r. sp_id r = ''s2'') (service_posts society) = [post ''s2'' False 6]"
proof -
  have v: "service_posts_view_owned society (Some ''s2'') ''a1'' =
             Inr [\<lparr>v_post = post ''s2'' False 6, v_user_id = ''u1'', v_rating = 0,
                   v_rating_count = 0, v_experience_yrs = 2, v_role = ''WORKER'',
                   v_auth_id = ''a1'', v_name = Some ''Asha'',
                   v_phone = Some ''9000000001''\<rparr>]"
    by (simp add: service_posts_view_owned_def eq_uuid_def service_posts_view_def society_defs
                  left_join_def)
  have ev: "toggle_service society ''a1'' (route_params ''s2'') =
     (Response 200 (ServicePostData (post ''s2'' True 6)),
      society\<lparr>service_posts := [post ''s1'' True 5, post ''s2'' True 6, post ''s3'' True 7]\<rparr>)"
    by (simp add: toggle_service_def route_params_def v maybeSingle_def)
       (simp add: service_posts_update_is_active_def eq_uuid_def society_def post_def)
  from toggle_service_frame [OF ev] obtain s where
    "filter (\<lambda>r. sp_id r = ''s2'') (service_posts society) = [s]"
    "ServicePostData (post ''s2'' True 6) = ServicePostData (s\<lparr>sp_is_active := \<not> sp_is_active s\<rparr>)"
    by blast
  moreover have "filter (\<lambda>r. sp_id r = ''s2'') (service_posts society) = [post ''s2'' False 6]"
    by (simp add: society_def post_def)
  ultimately show ?thesis using ev by simp
qed

lemma delete_service_route_param:
  "delete_service d authId (route_params segment) =
     (Response 404 (Error ''Service not found or not owned by you''), d)"
  by (simp add: delete_service_def route_params_def service_posts_view_owned_def
                eq_uuid_def single_def)

text \<open>
  C2. The handler of \<open>DELETE /services/:id\<close> reads the path parameter under the name
  \<open>serviceId\<close>, which the route does not bind, so the ownership lookup is made with
  \<open>undefined\<close> and fails. The caller \<open>a1\<close> owns the post \<open>s1\<close> (the same lookup,
  made by toggle with the bound parameter, finds it), yet the request is answered 404 and
  the post is still stored.
\<close>

theorem delete_service_owned_post:
  "service_posts_view_owned society (Some ''s1'') ''a1'' \<noteq> Inr [] \<and>
   fst (toggle_service society ''a1'' (route_params ''s1'')) =
     Response 200 (ServicePostData (post ''s1'' False 5)) \<and>
   delete_service society ''a1'' (route_params ''s1'') =
     (Response 404 (Error ''Service not found or not owned by you''), society) \<and>
   post ''s1'' True 5 \<in> set (service_posts society)"
proof -
  have v: "service_posts_view_owned society (Some ''s1'') ''a1'' =
             Inr [\<lparr>v_post = post ''s1'' True 5, v_user_id = ''u1'', v_rating = 0,
                   v_rating_count = 0, v_experience_yrs = 2, v_role = ''WORKER'',
                   v_auth_id = ''a1'', v_name = Some ''Asha'',
                   v_phone = Some ''9000000001''\<rparr>]"
    by (simp add: service_posts_view_owned_def eq_uuid_def service_posts_view_def society_def
                  asha_def ravi_def asha_profile_def asha_worker_def post_def left_join_def)
  have t: "fst (toggle_service society ''a1'' (route_params ''s1'')) =
             Response 200 (ServicePostData (post ''s1'' False 5))"
    by (simp add: toggle_service_def route_params_def v maybeSingle_def)
       (simp add: service_posts_update_is_active_def eq_uuid_def society_def post_def)
  have m: "post ''s1'' True 5 \<in> set (service_posts society)"
    by (simp add: society_def)
  from v t m show ?thesis by (simp add: delete_service_route_param)
qed

section \<open>The public list of services\<close>

lemma concat_map_if:
  "concat (map (\<lambda>x. if P x then G x else []) xs) = concat (map G (filter P xs))"
  by (induction xs) auto

lemma filter_key_single:
  "distinct (map f xs) \<Longrightarrow> k \<in> f ` set xs \<Longrightarrow> \<exists>x. filter (\<lambda>x. f x = k) xs = [x]"
proof (induction xs)
  case Nil
  then show ?case by simp
next
  case (Cons a xs)
  show ?case
  proof (cases "f a = k")
    case True
    with Cons.prems have "k \<notin> f ` set xs" by simp
    then have "filter (\<lambda>x. f x = k) xs = []"
      by (auto simp: filter_empty_conv)
    with True show ?thesis by simp
  next
    case False
    with Cons show ?thesis by auto
  qed
qed

lemma filter_key_le1:
  "distinct (map f xs) \<Longrightarrow> length (filter (\<lambda>x. f x = k) xs) \<le> 1"
proof (induction xs)
  case Nil
  then show ?case by simp
next
  case (Cons a xs)
  show ?case
  proof (cases "f a = k")
    case True
    with Cons.prems have "k \<notin> f ` set xs" by simp
    then have "filter (\<lambda>x. f x = k) xs = []"
      by (auto simp: filter_empty_conv)
    with True show ?thesis by simp
  next
    case False
    with Cons show ?thesis by auto
  qed
qed

lemma left_join_single: "length rows \<le> 1 \<Longrightarrow> \<exists>p. left_join rows = [p]"
  by (cases rows) (auto simp: left_join_def)

text \<open>Under the constraints of the schema the view has one row for each post.\<close>

lemma view_of_post:
  assumes "schema_constraints d" and "sp \<in> set (service_posts d)"
  shows "map v_post (service_posts_view (d\<lparr>service_posts := [sp]\<rparr>)) = [sp]"
proof -
  from assms have "sp_worker_id sp \<in> wp_id ` set (worker_profiles d)"
    by (auto simp: schema_constraints_def list_all_iff)
  with assms(1) obtain wp where
    wp: "filter (\<lambda>w. wp_id w = sp_worker_id sp) (worker_profiles d) = [wp]"
    using filter_key_single [of wp_id "worker_profiles d" "sp_worker_id sp"]
    by (auto simp: schema_constraints_def)
  then have "wp \<in> set (worker_profiles d)" by (auto dest: filter_single_mem)
  with assms(1) have "wp_user_id wp \<in> u_id ` set (users d)"
    by (auto simp: schema_constraints_def list_all_iff)
  with assms(1) obtain u where u: "filter (\<lambda>u. u_id u = wp_user_id wp) (users d) = [u]"
    using filter_key_single [of u_id "users d" "wp_user_id wp"]
    by (auto simp: schema_constraints_def)
  from assms(1) have "length (filter (\<lambda>p. p_user_id p = u_id u) (profiles d)) \<le> 1"
    by (intro filter_key_le1) (simp add: schema_constraints_def)
  then obtain p where p: "left_join (filter (\<lambda>p. p_user_id p = u_id u) (profiles d)) = [p]"
    using left_join_single by blast
  show ?thesis
    by (simp add: service_posts_view_def concat_map_if wp u p)
qed

lemma view_concat:
  "service_posts_view d =
     concat (map (\<lambda>sp. service_posts_view (d\<lparr>service_posts := [sp]\<rparr>)) (service_posts d))"
  by (simp add: service_posts_view_def cong: if_cong)

lemma view_posts:
  assumes "schema_constraints d"
  shows "map v_post (service_posts_view d) = service_posts d"
proof -
  have "map v_post (service_posts_view d) =
          concat (map (\<lambda>sp. map v_post (service_posts_view (d\<lparr>service_posts := [sp]\<rparr>)))
                   (service_posts d))"
    by (subst view_concat) (simp add: map_concat comp_def)
  also have "\<dots> = concat (map (\<lambda>sp. [sp]) (service_posts d))"
    by (rule arg_cong [where f = concat], rule map_cong) (simp_all add: view_of_post [OF assms])
  also have "\<dots> = service_posts d" by (induction "service_posts d") simp_all
  finally show ?thesis .
qed

text \<open>
  C6. \<open>GET /services\<close> answers 200 with a list in which every post is active, which is
  ordered by creation time, newest first, and which, in a state that satisfies the
  constraints of the schema, holds exactly the active posts of \<open>service_posts\<close>, each
  once.
\<close>

theorem get_services_active_newest_first:
  "\<exists>rows. get_services d = Response 200 (Services rows) \<and>
          (\<forall>r \<in> set rows. sp_is_active (v_post r) = True) \<and>
          sorted_wrt (\<lambda>a b. sp_created_at (v_post a) \<ge> sp_created_at (v_post b)) rows \<and>
          (schema_constraints d \<longrightarrow>
             mset (map v_post rows) = mset (filter (\<lambda>s. sp_is_active s = True) (service_posts d)))"
proof -
  let ?f = "\<lambda>r. sp_created_at (v_post r)"
  let ?act = "filter (\<lambda>r. sp_is_active (v_post r) = True) (service_posts_view d)"
  let ?rows = "order_desc ?f ?act"
  have g: "get_services d = Response 200 (Services ?rows)"
    by (simp add: get_services_def service_posts_view_active_def)
  have a: "\<forall>r \<in> set ?rows. sp_is_active (v_post r) = True"
    by (simp add: order_desc_def)
  have "sorted (map ?f (sort_key ?f ?act))" by (rule sorted_sort_key)
  then have "sorted_wrt (\<lambda>a b. ?f a \<le> ?f b) (sort_key ?f ?act)"
    by (simp add: sorted_wrt_map)
  then have s: "sorted_wrt (\<lambda>a b. ?f a \<ge> ?f b) ?rows"
    by (simp add: order_desc_def sorted_wrt_rev)
  have m: "mset (map v_post ?rows) = mset (filter (\<lambda>s. sp_is_active s = True) (service_posts d))"
    if "schema_constraints d"
  proof -
    have "mset (map v_post ?rows) = mset (map v_post ?act)"
      by (simp add: order_desc_def)
    also have "map v_post ?act =
                 filter (\<lambda>s. sp_is_active s = True) (map v_post (service_posts_view d))"
      by (simp add: filter_map comp_def)
    also have "map v_post (service_posts_view d) = service_posts d"
      by (rule view_posts [OF that])
    finally show ?thesis .
  qed
  from g a s m show ?thesis by blast
qed

theorem get_services_active_newest_first_witness:
  "schema_constraints society
   \<and> (\<exists>rows. get_services society = Response 200 (Services rows) \<and>
             map v_post rows = [post ''s3'' True 7, post ''s1'' True 5] \<and>
             mset (map v_post rows) =
               mset (filter (\<lambda>s. sp_is_active s = True) (service_posts society)))"
proof -
  have c: "schema_constraints society"
    by (simp add: schema_constraints_def society_defs)
  have g: "get_services society =
             Response 200 (Services (map (\<lambda>s. \<lparr>v_post = s, v_user_id = ''u1'', v_rating = 0,
                   v_rating_count = 0, v_experience_yrs = 2, v_role = ''WORKER'',
                   v_auth_id = ''a1'', v_name = Some ''Asha'',
                   v_phone = Some ''9000000001''\<rparr>) [post ''s3'' True 7, post ''s1'' True 5]))"
    by (simp add: get_services_def service_posts_view_active_def service_posts_view_def
                  order_desc_def left_join_def society_defs)
  from get_services_active_newest_first [of society] c g show ?thesis
    by (auto simp: comp_def)
qed

section \<open>Requirements\<close>

text \<open>
  C9. A body that passes validation and whose \<open>preferredPrice\<close> is the number 0 is
  parsed with the price 0; sent by a caller with one \<open>users\<close> row of role RESIDENT, with
  a fresh identifier from the store, the request is answered 200 and the requirement
  stored for the caller has no preferred price (\<open>null\<close>, not 0).
\<close>

theorem post_requirements_zero_price:
  assumes "RequirementPostBody reqBody = Some parsed"
      and "member_of reqBody ''preferredPrice'' = Some (JNum (Finite 0))"
      and "users_by_auth_id d authId = Inr [u]"
      and "u_role u = ''RESIDENT''"
      and "gen_random_uuid e \<notin> set (map r_id (requirements d))"
  shows "rb_preferredPrice parsed = Some (Finite 0) \<and>
         (\<exists>row. post_requirements e d authId reqBody =
                   (Response 200 (RequirementData row),
                    d\<lparr>requirements := requirements d @ [row]\<rparr>) \<and>
                 r_owner_id row = u_id u \<and> r_preferred_price row = None)"
proof -
  from RequirementPostBody_fields(3) [OF assms(1)] assms(2)
  have price: "rb_preferredPrice parsed = Some (Finite 0)"
    by (simp add: optional_def)
  from assms(3) have "u \<in> set (users d)"
    by (auto simp: users_by_auth_id_def dest: filter_single_mem)
  then have fk: "u_id u \<in> u_id ` set (users d)" by (rule imageI)
  note nt = RequirementPostBody_fields(1) [OF assms(1)]
  note ur = RequirementPostBody_fields(2) [OF assms(1)]
  from assms price have "\<exists>row. post_requirements e d authId reqBody =
                   (Response 200 (RequirementData row),
                    d\<lparr>requirements := requirements d @ [row]\<rparr>) \<and>
                 r_owner_id row = u_id u \<and> r_preferred_price row = None"
    by (simp add: post_requirements_def maybeSingle_def requirements_insert_def Let_def
                  num_or_null_def int4_opt_def fk nt ur del: set_simps)
  with price show ?thesis by simp
qed

theorem post_requirements_zero_price_witness:
  "RequirementPostBody requirement_body =
     Some \<lparr>rb_needType = ''COOK'', rb_details = None, rb_preferredTiming = None,
           rb_preferredPrice = Some (Finite 0), rb_block = None, rb_flatNo = None,
           rb_urgency = ''MEDIUM''\<rparr>
   \<and> (\<exists>row. post_requirements today society ''a2'' requirement_body =
               (Response 200 (RequirementData row), society\<lparr>requirements := [row]\<rparr>) \<and>
             r_owner_id row = ''u2'' \<and> r_preferred_price row = None)"
proof -
  let ?parsed = "\<lparr>rb_needType = ''COOK'', rb_details = None, rb_preferredTiming = None,
           rb_preferredPrice = Some (Finite 0), rb_block = None, rb_flatNo = None,
           rb_urgency = ''MEDIUM''\<rparr>"
  have p: "RequirementPostBody requirement_body = Some ?parsed"
    by (simp add: RequirementPostBody_def requirement_body_def required_def optional_def
                  defaulted_def)
  have m: "member_of requirement_body ''preferredPrice'' = Some (JNum (Finite 0))"
    by (simp add: requirement_body_def)
  have u: "users_by_auth_id society ''a2'' = Inr [ravi]"
    by (simp add: users_by_auth_id_def society_defs)
  have r: "u_role ravi = ''RESIDENT''" by (simp add: ravi_def)
  have f: "gen_random_uuid today \<notin> set (map r_id (requirements society))"
    by (simp add: society_defs)
  from post_requirements_zero_price [OF p m u r f] p show ?thesis
    by (simp add: ravi_def society_def)
qed

section \<open>Batch translation\<close>

lemma promise_all_resolved:
  "\<forall>p \<in> set ps. \<not> isl p \<Longrightarrow> promise_all ps = Inr (map projr ps)"
  by (induction ps) (auto split: sum.splits)

lemma promise_all_isl: "isl (promise_all ps) \<longleftrightarrow> (\<exists>p \<in> set ps. isl p)"
  by (induction ps) (auto split: sum.splits)

lemma drop_slice: "drop i xs = take 5 (drop i xs) @ drop (i + 5) xs"
  by (metis append_take_drop_id drop_drop add.commute)

lemma batches_of_drop:
  "i < length xs \<Longrightarrow> batches_of (drop i xs) = take 5 (drop i xs) # batches_of (drop (i + 5) xs)"
  by (subst batches_of.simps) (simp add: add.commute)

lemma batches_of_Nil: "batches_of [] = []"
  by (subst batches_of.simps) simp

lemma loop_resolves:
  "\<forall>t \<in> set (drop i texts).
      \<not> isl (translate \<lparr>tr_text = t, tr_fromLanguage = l1, tr_toLanguage = l2, tr_context = c\<rparr>) \<Longrightarrow>
   translateBatch_loop translate l1 l2 c texts i results batches =
     (Inr (results @ map (\<lambda>t. projr (translate \<lparr>tr_text = t, tr_fromLanguage = l1,
                                                  tr_toLanguage = l2, tr_context = c\<rparr>))
                      (drop i texts)),
      batches @ batches_of (drop i texts))"
proof (induction translate l1 l2 c texts i results batches rule: translateBatch_loop.induct)
  case (1 translate l1 l2 c texts i results batches)
  let ?mk = "\<lambda>t. \<lparr>tr_text = t, tr_fromLanguage = l1, tr_toLanguage = l2, tr_context = c\<rparr>"
  show ?case
  proof (cases "i < length texts")
    case True
    let ?batch = "slice texts i (i + 5)"
    have sub: "set ?batch \<subseteq> set (drop i texts)"
      by (simp add: slice_def set_take_subset)
    with "1.prems" have ok: "\<forall>p \<in> set (map (\<lambda>t. translate (?mk t)) ?batch). \<not> isl p"
      by auto
    have pa: "promise_all (map (\<lambda>t. translate (?mk t)) ?batch) =
                Inr (map (\<lambda>t. projr (translate (?mk t))) ?batch)"
      using promise_all_resolved [OF ok] by (simp add: comp_def)
    have "set (drop (i + 5) texts) \<subseteq> set (drop i texts)"
      by (metis drop_slice set_append Un_upper2)
    with "1.prems" have rest: "\<forall>t \<in> set (drop (i + 5) texts). \<not> isl (translate (?mk t))"
      by auto
    have m: "map (\<lambda>t. projr (translate (?mk t))) (drop i texts) =
             map (\<lambda>t. projr (translate (?mk t))) (take 5 (drop i texts)) @
             map (\<lambda>t. projr (translate (?mk t))) (drop (i + 5) texts)"
      by (metis map_append drop_slice)
    from "1.IH" [OF True refl refl pa rest] True pa m batches_of_drop [OF True] show ?thesis
      by (subst translateBatch_loop.simps) (simp add: slice_def Let_def)
  next
    case False
    then show ?thesis
      by (subst translateBatch_loop.simps) (simp add: batches_of_Nil)
  qed
qed

lemma loop_rejects:
  "\<exists>t \<in> set (drop i texts).
      isl (translate \<lparr>tr_text = t, tr_fromLanguage = l1, tr_toLanguage = l2, tr_context = c\<rparr>) \<Longrightarrow>
   isl (fst (translateBatch_loop translate l1 l2 c texts i results batches))"
proof (induction translate l1 l2 c texts i results batches rule: translateBatch_loop.induct)
  case (1 translate l1 l2 c texts i results batches)
  let ?mk = "\<lambda>t. \<lparr>tr_text = t, tr_fromLanguage = l1, tr_toLanguage = l2, tr_context = c\<rparr>"
  let ?batch = "slice texts i (i + 5)"
  from "1.prems" have lt: "i < length texts" by (cases "i < length texts") auto
  show ?case
  proof (cases "promise_all (map (\<lambda>t. translate (?mk t)) ?batch)")
    case (Inl err)
    with lt show ?thesis by (subst translateBatch_loop.simps) (simp add: Let_def)
  next
    case (Inr batchResults)
    then have "\<not> isl (promise_all (map (\<lambda>t. translate (?mk t)) ?batch))" by simp
    then have none: "\<forall>t \<in> set (take 5 (drop i texts)). \<not> isl (translate (?mk t))"
      by (simp add: promise_all_isl slice_def)
    have "set (drop i texts) = set (take 5 (drop i texts)) \<union> set (drop (i + 5) texts)"
      by (metis set_append drop_slice)
    with "1.prems" none have "\<exists>t \<in> set (drop (i + 5) texts). isl (translate (?mk t))" by auto
    from "1.IH" [OF lt refl refl Inr this] lt Inr show ?thesis
      by (subst translateBatch_loop.simps) (simp add: Let_def)
  qed
qed

text \<open>
  C8. \<open>translateBatch\<close> returns, for every list of texts, the list of their translations
  by \<open>translateText\<close> in the order of the input: the results have the length of the
  input and the i-th result is the translation of the i-th text. The slices its loop hands
  to \<open>Promise.all\<close> are the chunks of size 5 of the input. Its loop never rejects, since
  \<open>translateText\<close> never does; over a function that rejects for some text, the loop
  fails and \<open>translateBatch\<close> returns the input list unchanged, and over any function
  that resolves for every text it returns the results in input order, in the same chunks.
\<close>

theorem translateBatch_order:
  "translateBatch g texts l1 l2 c =
     (map (\<lambda>t. fst (translateText g \<lparr>tr_text = t, tr_fromLanguage = l1,
                                      tr_toLanguage = l2, tr_context = c\<rparr>)) texts,
      batches_of texts)
   \<and> \<not> isl (fst (translateBatch_loop
                     (\<lambda>req. (Inr (fst (translateText g req)) :: unit + string))
                     l1 l2 c texts 0 [] []))
   \<and> length (fst (translateBatch g texts l1 l2 c)) = length texts
   \<and> (\<forall>i. i < length texts \<longrightarrow>
         fst (translateBatch g texts l1 l2 c) ! i =
           fst (translateText g \<lparr>tr_text = texts ! i, tr_fromLanguage = l1,
                                  tr_toLanguage = l2, tr_context = c\<rparr>))
   \<and> ((\<forall>t \<in> set texts. \<not> isl (translate \<lparr>tr_text = t, tr_fromLanguage = l1,
                                              tr_toLanguage = l2, tr_context = c\<rparr>)) \<longrightarrow>
        translateBatch_over translate texts l1 l2 c =
          (map (\<lambda>t. projr (translate \<lparr>tr_text = t, tr_fromLanguage = l1,
                                        tr_toLanguage = l2, tr_context = c\<rparr>)) texts,
           batches_of texts))
   \<and> ((\<exists>t \<in> set texts. isl (translate \<lparr>tr_text = t, tr_fromLanguage = l1,
                                            tr_toLanguage = l2, tr_context = c\<rparr>)) \<longrightarrow>
        fst (translateBatch_over translate texts l1 l2 c) = texts)"
proof -
  let ?mk = "\<lambda>t. \<lparr>tr_text = t, tr_fromLanguage = l1, tr_toLanguage = l2, tr_context = c\<rparr>"
  have gen: "translateBatch_over tr texts l1 l2 c =
               (map (\<lambda>t. projr (tr (?mk t))) texts, batches_of texts)"
    if "\<forall>t \<in> set texts. \<not> isl (tr (?mk t))" for tr :: "TranslationRequest \<Rightarrow> 'x + string"
    using loop_resolves [of 0 texts tr l1 l2 c "[]" "[]"] that
    by (simp add: translateBatch_over_def)
  have a: "translateBatch g texts l1 l2 c = (map (\<lambda>t. fst (translateText g (?mk t))) texts, batches_of texts)"
    unfolding translateBatch_def by (subst gen) simp_all
  have b: "fst (translateBatch_over translate texts l1 l2 c) = texts"
    if "\<exists>t \<in> set texts. isl (translate (?mk t))"
  proof -
    from that have "isl (fst (translateBatch_loop translate l1 l2 c texts 0 [] []))"
      by (intro loop_rejects) simp
    then show ?thesis
      by (auto simp: translateBatch_over_def split: prod.splits sum.splits)
  qed
  have n: "\<not> isl (fst (translateBatch_loop
                     (\<lambda>req. (Inr (fst (translateText g req)) :: unit + string))
                     l1 l2 c texts 0 [] []))"
    by (subst loop_resolves) simp_all
  from a n gen [of translate] b show ?thesis by simp
qed

theorem translateBatch_order_witness:
  "translateBatch echo [''a'', ''b'', ''c'', ''d'', ''e'', ''f''] ''en'' ''hi'' None =
     ([''Hindi: a'', ''Hindi: b'', ''Hindi: c'', ''Hindi: d'', ''Hindi: e'', ''Hindi: f''],
      [[''a'', ''b'', ''c'', ''d'', ''e''], [''f'']])
   \<and> isl (rejecting \<lparr>tr_text = ''c'', tr_fromLanguage = ''en'', tr_toLanguage = ''hi'',
                      tr_context = None\<rparr>)
   \<and> fst (translateBatch_over rejecting [''a'', ''b'', ''c'', ''d'', ''e'', ''f''] ''en'' ''hi'' None) =
       [''a'', ''b'', ''c'', ''d'', ''e'', ''f'']"
proof -
  let ?texts = "[''a'', ''b'', ''c'', ''d'', ''e'', ''f'']"
  have r: "\<exists>t \<in> set ?texts. isl (rejecting \<lparr>tr_text = t, tr_fromLanguage = ''en'',
                                              tr_toLanguage = ''hi'', tr_context = None\<rparr>)"
    by (simp add: rejecting_def)
  have r': "isl (rejecting \<lparr>tr_text = ''c'', tr_fromLanguage = ''en'', tr_toLanguage = ''hi'',
                      tr_context = None\<rparr>)"
    by (simp add: rejecting_def)
  have b: "batches_of ?texts = [[''a'', ''b'', ''c'', ''d'', ''e''], [''f'']]"
    by (simp add: batches_of.simps)
  note th = translateBatch_order [of echo ?texts "''en''" "''hi''" None rejecting]
  from th have m: "translateBatch echo ?texts ''en'' ''hi'' None =
      (map (\<lambda>t. fst (translateText echo \<lparr>tr_text = t, tr_fromLanguage = ''en'',
                                     tr_toLanguage = ''hi'', tr_context = None\<rparr>)) ?texts,
       batches_of ?texts)"
    by (rule conjunct1)
  from th r have f: "fst (translateBatch_over rejecting ?texts ''en'' ''hi'' None) = ?texts"
    by blast
  have e: "map (\<lambda>t. fst (translateText echo \<lparr>tr_text = t, tr_fromLanguage = ''en'',
                                     tr_toLanguage = ''hi'', tr_context = None\<rparr>)) ?texts =
           [''Hindi: a'', ''Hindi: b'', ''Hindi: c'', ''Hindi: d'', ''Hindi: e'', ''Hindi: f'']"
    by (simp add: translateText_def echo_def language_name_def SUPPORTED_LANGUAGES_def
                  contextPrompt_of_def Let_def trim_def js_space_def strip_quotes_def is_quote_def)
  from m e f b r' show ?thesis by simp
qed

text \<open>The failing run hands only the first slice to \<open>Promise.all\<close>.\<close>

lemma translateBatch_over_rejecting:
  "translateBatch_over rejecting [''a'', ''b'', ''c'', ''d'', ''e'', ''f''] ''en'' ''hi'' None =
     ([''a'', ''b'', ''c'', ''d'', ''e'', ''f''], [[''a'', ''b'', ''c'', ''d'', ''e'']])"
  by (simp add: translateBatch_over_def translateBatch_loop.simps slice_def rejecting_def Let_def)

end
